theory Spec2Isabelle
  imports Main "HOL-Library.Sublist" "HOL-Library.AList"
begin

section \<open>Strings\<close>

text \<open>
  Python strings are modelled as \<open>string\<close> (lists of 8-bit characters). The case
  conversions of \<open>str.title\<close> and \<open>str.lower\<close> are modelled on the ASCII letters;
  every other character is uncased and left as it is.
\<close>

definition is_lower :: "char \<Rightarrow> bool" where
  "is_lower c = (97 \<le> (of_char c :: nat) \<and> (of_char c :: nat) \<le> 122)"

definition is_upper :: "char \<Rightarrow> bool" where
  "is_upper c = (65 \<le> (of_char c :: nat) \<and> (of_char c :: nat) \<le> 90)"

definition to_upper :: "char \<Rightarrow> char" where
  "to_upper c = (if is_lower c then char_of ((of_char c :: nat) - 32) else c)"

definition to_lower :: "char \<Rightarrow> char" where
  "to_lower c = (if is_upper c then char_of ((of_char c :: nat) + 32) else c)"

text \<open>\<open>s.lower()\<close>\<close>

definition lower :: "string \<Rightarrow> string" where
  "lower s = map to_lower s"

text \<open>
  \<open>s.title()\<close>: a cased character is upper-cased when the character before it is
  not cased, and lower-cased when it is. The flag is Python's \<open>previous_is_cased\<close>.
\<close>

fun title_from :: "bool \<Rightarrow> string \<Rightarrow> string" where
  "title_from previous_is_cased [] = []"
| "title_from previous_is_cased (c # cs) =
     (if is_lower c \<or> is_upper c
      then (if previous_is_cased then to_lower c else to_upper c) # title_from True cs
      else c # title_from False cs)"

definition title :: "string \<Rightarrow> string" where
  "title s = title_from False s"

text \<open>\<open>str(b)\<close> of a Boolean.\<close>

definition str_bool :: "bool \<Rightarrow> string" where
  "str_bool b = (if b then ''True'' else ''False'')"

text \<open>\<open>str(n)\<close> of an integer: its decimal digits, with a sign when negative.\<close>

definition digit_char :: "nat \<Rightarrow> char" where
  "digit_char d = char_of (48 + d)"

function str_nat :: "nat \<Rightarrow> string" where
  "str_nat n = (if n < 10 then [digit_char n] else str_nat (n div 10) @ [digit_char (n mod 10)])"
  by pat_completeness auto
termination
  by (relation "measure id") auto

definition str_int :: "int \<Rightarrow> string" where
  "str_int i = (if i < 0 then CHR ''-'' # str_nat (nat (- i)) else str_nat (nat i))"

text \<open>A text block: every line is followed by a newline character.\<close>

definition text_lines :: "string list \<Rightarrow> string" where
  "text_lines ls = concat (map (\<lambda>l. l @ [CHR 0x0A]) ls)"

section \<open>Configuration\<close>

text \<open>
  The configuration dictionary of a constructed \<open>VMManager\<close>: \<open>load_config\<close> has
  filled in every key of the defaults, and the values have the types of the defaults.
\<close>

record config =
  project_id :: string
  region :: string
  zone :: string
  vm_name :: string
  machine_type :: string
  os_choice :: string
  disk_size :: int
  enable_http_server :: bool
  enable_monitoring :: bool
  instance_state :: string
  auto_start :: bool
  auto_restart :: bool
  preemptible :: bool
  tags :: "string list"
  labels :: "(string \<times> string) list"

text \<open>The default dictionary of \<open>load_config\<close>, read as such a record.\<close>

definition default_config_record :: config where
  "default_config_record = \<lparr>
     project_id = ''your-gcp-project-id'',
     region = ''us-central1'',
     zone = '''',
     vm_name = ''python-managed-vm'',
     machine_type = ''e2-micro'',
     os_choice = ''ubuntu'',
     disk_size = 20,
     enable_http_server = True,
     enable_monitoring = False,
     instance_state = ''RUNNING'',
     auto_start = True,
     auto_restart = True,
     preemptible = False,
     tags = [''python-managed'', ''http-server''],
     labels = [(''created-by'', ''python-script''), (''environment'', ''development'')] \<rparr>"

text \<open>\<open>get_zone\<close>: the configured zone, or the region's zone \<open>a\<close> when it is empty.\<close>

definition get_zone :: "config \<Rightarrow> string" where
  "get_zone cfg = (if zone cfg \<noteq> [] then zone cfg else region cfg @ ''-a'')"

section \<open>Startup script\<close>

definition script_header :: "config \<Rightarrow> string" where
  \<open>script_header cfg = text_lines [
     ''#!/bin/bash'',
     ''echo "=== Starting '' @ title (os_choice cfg) @ '' VM Setup ===" | tee -a /var/log/startup.log'',
     ''echo "Timestamp: $(date)" | tee -a /var/log/startup.log'',
     ''echo "VM Name: '' @ vm_name cfg @ ''" | tee -a /var/log/startup.log'',
     ''echo "Machine Type: '' @ machine_type cfg @ ''" | tee -a /var/log/startup.log'',
     ''echo "Zone: '' @ get_zone cfg @ ''" | tee -a /var/log/startup.log'']\<close>

text \<open>The Apache section: the template of the \<open>ubuntu\<close> branch after \<open>format\<close>.\<close>

definition apache_section :: "config \<Rightarrow> string" where
  \<open>apache_section cfg = text_lines [
     '''',
     ''echo "Updating package lists..." | tee -a /var/log/startup.log'',
     ''apt-get update 2>&1 | tee -a /var/log/startup.log'',
     ''echo "Installing Apache2..." | tee -a /var/log/startup.log'',
     ''apt-get install -y apache2 2>&1 | tee -a /var/log/startup.log'',
     ''echo "Creating hello world page..." | tee -a /var/log/startup.log'',
     ''mkdir -p /var/www/html'',
     ''cat > /var/www/html/index.html << 'EOF'' @ [CHR 0x27],
     ''<html>'',
     ''<head><title>Python-Managed VM</title></head>'',
     ''<body>'',
     ''<h1>Hello, World!</h1>'',
     ''<p>VM: '' @ vm_name cfg @ ''</p>'',
     ''<p>Zone: '' @ get_zone cfg @ ''</p>'',
     ''<p>Machine Type: '' @ machine_type cfg @ ''</p>'',
     ''<p>Managed by: Python Script</p>'',
     ''<p>Timestamp: $(date)</p>'',
     ''</body>'',
     ''</html>'',
     ''EOF'',
     ''echo "Starting Apache2..." | tee -a /var/log/startup.log'',
     ''systemctl start apache2 2>&1 | tee -a /var/log/startup.log'',
     ''systemctl enable apache2 2>&1 | tee -a /var/log/startup.log'']\<close>

text \<open>The Nginx section: the template of the \<open>debian\<close> branch after \<open>format\<close>.\<close>

definition nginx_section :: "config \<Rightarrow> string" where
  \<open>nginx_section cfg = text_lines [
     '''',
     ''echo "Installing Nginx..." | tee -a /var/log/startup.log'',
     ''apt-get update 2>&1 | tee -a /var/log/startup.log'',
     ''apt-get install -y nginx 2>&1 | tee -a /var/log/startup.log'',
     ''echo "<h1>Hello from Debian!</h1><p>VM: '' @ vm_name cfg @ ''</p>" > /var/www/html/index.html'',
     ''systemctl start nginx 2>&1 | tee -a /var/log/startup.log'',
     ''systemctl enable nginx 2>&1 | tee -a /var/log/startup.log'']\<close>

definition script_footer :: "config \<Rightarrow> string" where
  \<open>script_footer cfg = text_lines [
     '''',
     ''echo "=== '' @ title (os_choice cfg) @ '' VM Setup Complete ===" | tee -a /var/log/startup.log'']\<close>

definition generate_startup_script :: "config \<Rightarrow> string" where
  "generate_startup_script cfg =
     (let base_script = script_header cfg;
          base_script =
            (if enable_http_server cfg then
               (if os_choice cfg = ''ubuntu'' then base_script @ apache_section cfg
                else if os_choice cfg = ''debian'' then base_script @ nginx_section cfg
                else base_script)
             else base_script)
      in base_script @ script_footer cfg)"

section \<open>Exceptions, outcomes and the remote side\<close>

text \<open>
  The exceptions of class \<open>Exception\<close> that the program meets. \<open>ApiError\<close> stands for
  any error a client of the provider raises (not found, permission, quota, transport).
\<close>

datatype exn =
    ApiError string
  | KeyError string
  | AttributeError string
  | TypeError string
  | ValueError string
  | OSError string

text \<open>\<open>str(e)\<close>, as an f-string renders an exception; a \<open>KeyError\<close> shows its key quoted.\<close>

fun str_exn :: "exn \<Rightarrow> string" where
  "str_exn (ApiError msg) = msg"
| "str_exn (KeyError k) = [CHR 0x27] @ k @ [CHR 0x27]"
| "str_exn (AttributeError msg) = msg"
| "str_exn (TypeError msg) = msg"
| "str_exn (ValueError msg) = msg"
| "str_exn (OSError msg) = msg"

text \<open>
  What a call does: it returns a value, it raises, or it never comes back. \<open>Blocked\<close> is
  a synchronous remote call that is never answered, or a polling loop that never sees a
  terminal status: the process hangs at that point.
\<close>

datatype 'a outcome = Return 'a | Raise exn | Blocked

fun answer :: "exn + 'a \<Rightarrow> 'a outcome" where
  "answer (Inl e) = Raise e"
| "answer (Inr v) = Return v"

text \<open>\<open>compute_v1.Operation.Status\<close>\<close>

datatype operation_status = UNDEFINED_STATUS | PENDING | RUNNING | DONE

text \<open>
  What \<open>get\<close> on an operations client returns. \<open>error\<close> is \<open>None\<close> when no error is
  attached (\<open>result.error\<close> is falsy), and otherwise the rendering of the error payload.
\<close>

record operation_result =
  status :: operation_status
  error :: "string option"
  progress :: int

text \<open>
  An operation handle, as a mutating call returns it. \<open>op_name\<close> is \<open>None\<close> for an
  object without an attribute \<open>name\<close>. The scope is that of the resource the operation
  acts on: instances are zonal, firewall rules are global.
\<close>

datatype scope = ZoneScoped | GlobalScoped

record operation =
  op_name :: "string option"
  op_scope :: scope

definition hasattr_name :: "operation \<Rightarrow> bool" where
  "hasattr_name operation = (op_name operation \<noteq> None)"

text \<open>\<open>operation.name\<close>\<close>

definition getattr_name :: "operation \<Rightarrow> exn + string" where
  "getattr_name operation =
     (case op_name operation of
        None \<Rightarrow> Inl (AttributeError ''name'')
      | Some n \<Rightarrow> Inr n)"

text \<open>
  A remote instance: its status, and for each network interface the NAT addresses of its
  access configurations.
\<close>

record vm_instance =
  inst_status :: string
  network_interfaces :: "string list list"

text \<open>The resources the program builds and submits.\<close>

record firewall_resource =
  fw_name :: string
  fw_direction :: string
  fw_priority :: int
  fw_source_ranges :: "string list"
  fw_target_tags :: "string list"
  fw_allowed :: "(string \<times> string list) list"

record instance_resource =
  ir_name :: string
  ir_machine_type :: string
  ir_disk_auto_delete :: bool
  ir_disk_boot :: bool
  ir_disk_device_name :: string
  ir_source_image :: string
  ir_disk_size_gb :: int
  ir_disk_type :: string
  ir_network :: string
  ir_access_configs :: "(string \<times> string) list"
  ir_preemptible :: bool
  ir_automatic_restart :: bool
  ir_on_host_maintenance :: string
  ir_service_accounts :: "(string \<times> string list) list"
  ir_metadata :: "(string \<times> string) list"
  ir_tags :: "string list"
  ir_labels :: "(string \<times> string) list"

text \<open>The requests sent to the provider, with their arguments in the order of the source.\<close>

datatype request =
    InstancesGet string string string
  | InstancesInsert string string instance_resource
  | InstancesStart string string string
  | InstancesStop string string string
  | InstancesReset string string string
  | InstancesDelete string string string
  | FirewallsGet string string
  | FirewallsInsert string firewall_resource
  | ZoneOperationsGet string string string
  | GlobalOperationsGet string string

datatype level = INFO | SUCCESS | WARNING | ERROR

text \<open>
  What the process does that can be seen from outside, in order: a line printed, a record
  handed to the logger, a sleep, a request sent, the configuration file written.
\<close>

datatype event =
    Print string
  | Log level string
  | Sleep nat
  | Call request
  | Write config

section \<open>The manager\<close>

text \<open>
  The state of a constructed \<open>VMManager\<close> together with its environment. The provider is
  a script: for each client method, the answers it will give to the successive calls, an
  exception or a value each. A call on an exhausted script is never answered. Every
  behaviour of the provider over a run is such a script.
  \<open>disk\<close> is what this process last wrote to the configuration file, and \<open>write_error\<close>
  the exception that opening or writing that file raises, if any.
\<close>

record manager =
  config_file :: string
  config :: config
  disk :: "config option"
  write_error :: "exn option"
  instances_get_script :: "(exn + vm_instance) list"
  instances_mutate_script :: "(exn + operation) list"
  firewalls_get_script :: "(exn + unit) list"
  firewalls_insert_script :: "(exn + operation) list"
  zone_operations_script :: "(exn + operation_result) list"
  global_operations_script :: "(exn + operation_result) list"
  trace :: "event list"

definition emit :: "event list \<Rightarrow> manager \<Rightarrow> manager" where
  "emit es m = m\<lparr>trace := trace m @ es\<rparr>"

text \<open>
  The four logging methods: a coloured line on the terminal, then a record to the logger
  (which \<open>setup_logging\<close> has created).
\<close>

definition log_info :: "string \<Rightarrow> manager \<Rightarrow> manager" where
  "log_info message = emit [Print (''[INFO] '' @ message), Log INFO message]"

definition log_success :: "string \<Rightarrow> manager \<Rightarrow> manager" where
  "log_success message = emit [Print (''[SUCCESS] '' @ message), Log SUCCESS message]"

definition log_warning :: "string \<Rightarrow> manager \<Rightarrow> manager" where
  "log_warning message = emit [Print (''[WARNING] '' @ message), Log WARNING message]"

definition log_error :: "string \<Rightarrow> manager \<Rightarrow> manager" where
  "log_error message = emit [Print (''[ERROR] '' @ message), Log ERROR message]"

text \<open>\<open>time.sleep\<close>\<close>

definition sleep :: "nat \<Rightarrow> manager \<Rightarrow> manager" where
  "sleep n = emit [Sleep n]"

text \<open>Sequencing, and \<open>try ... except Exception\<close>.\<close>

definition and_then ::
  "(manager \<Rightarrow> 'a outcome \<times> manager) \<Rightarrow> ('a \<Rightarrow> manager \<Rightarrow> 'b outcome \<times> manager) \<Rightarrow>
   manager \<Rightarrow> 'b outcome \<times> manager" where
  "and_then f g m =
     (case f m of
        (Return a, m') \<Rightarrow> g a m'
      | (Raise e, m') \<Rightarrow> (Raise e, m')
      | (Blocked, m') \<Rightarrow> (Blocked, m'))"

definition try_except ::
  "(manager \<Rightarrow> 'a outcome \<times> manager) \<Rightarrow> (exn \<Rightarrow> manager \<Rightarrow> 'a outcome \<times> manager) \<Rightarrow>
   manager \<Rightarrow> 'a outcome \<times> manager" where
  "try_except body handler m =
     (case body m of
        (Raise e, m') \<Rightarrow> handler e m'
      | (Return a, m') \<Rightarrow> (Return a, m')
      | (Blocked, m') \<Rightarrow> (Blocked, m'))"

subsection \<open>The clients\<close>

definition instances_client_get ::
  "string \<Rightarrow> string \<Rightarrow> string \<Rightarrow> manager \<Rightarrow> vm_instance outcome \<times> manager" where
  "instances_client_get project z inst m =
     (let m = emit [Call (InstancesGet project z inst)] m in
      case instances_get_script m of
        [] \<Rightarrow> (Blocked, m)
      | r # rs \<Rightarrow> (answer r, m\<lparr>instances_get_script := rs\<rparr>))"

text \<open>\<open>insert\<close>, \<open>start\<close>, \<open>stop\<close>, \<open>reset\<close> and \<open>delete\<close> of the instances client.\<close>

definition instances_client_mutate :: "request \<Rightarrow> manager \<Rightarrow> operation outcome \<times> manager" where
  "instances_client_mutate req m =
     (let m = emit [Call req] m in
      case instances_mutate_script m of
        [] \<Rightarrow> (Blocked, m)
      | r # rs \<Rightarrow> (answer r, m\<lparr>instances_mutate_script := rs\<rparr>))"

definition firewalls_client_get :: "string \<Rightarrow> string \<Rightarrow> manager \<Rightarrow> unit outcome \<times> manager" where
  "firewalls_client_get project firewall m =
     (let m = emit [Call (FirewallsGet project firewall)] m in
      case firewalls_get_script m of
        [] \<Rightarrow> (Blocked, m)
      | r # rs \<Rightarrow> (answer r, m\<lparr>firewalls_get_script := rs\<rparr>))"

definition firewalls_client_insert ::
  "string \<Rightarrow> firewall_resource \<Rightarrow> manager \<Rightarrow> operation outcome \<times> manager" where
  "firewalls_client_insert project firewall_rule m =
     (let m = emit [Call (FirewallsInsert project firewall_rule)] m in
      case firewalls_insert_script m of
        [] \<Rightarrow> (Blocked, m)
      | r # rs \<Rightarrow> (answer r, m\<lparr>firewalls_insert_script := rs\<rparr>))"

definition zone_operations_client_get ::
  "string \<Rightarrow> string \<Rightarrow> string \<Rightarrow> manager \<Rightarrow> operation_result outcome \<times> manager" where
  "zone_operations_client_get project z operation m =
     (let m = emit [Call (ZoneOperationsGet project z operation)] m in
      case zone_operations_script m of
        [] \<Rightarrow> (Blocked, m)
      | r # rs \<Rightarrow> (answer r, m\<lparr>zone_operations_script := rs\<rparr>))"

text \<open>\<open>operations_client\<close> is the global operations client.\<close>

definition operations_client_get ::
  "string \<Rightarrow> string \<Rightarrow> manager \<Rightarrow> operation_result outcome \<times> manager" where
  "operations_client_get project operation m =
     (let m = emit [Call (GlobalOperationsGet project operation)] m in
      case global_operations_script m of
        [] \<Rightarrow> (Blocked, m)
      | r # rs \<Rightarrow> (answer r, m\<lparr>global_operations_script := rs\<rparr>))"

subsection \<open>save_config\<close>

definition save_config :: "manager \<Rightarrow> manager" where
  "save_config m =
     (case write_error m of
        None \<Rightarrow>
          log_success (''Configuration saved to '' @ config_file m)
            ((emit [Write (config m)] m)\<lparr>disk := Some (config m)\<rparr>)
      | Some e \<Rightarrow> log_error (''Error saving config: '' @ str_exn e) m)"

subsection \<open>wait_for_operation\<close>

text \<open>One fetch of the loop: the test on the handle, and the call it selects.\<close>

definition fetch_operation :: "operation \<Rightarrow> manager \<Rightarrow> operation_result outcome \<times> manager" where
  "fetch_operation operation m =
     (if hasattr_name operation then
        (case getattr_name operation of
           Inl e \<Rightarrow> (Raise e, m)
         | Inr n \<Rightarrow> zone_operations_client_get (project_id (config m)) (get_zone (config m)) n m)
      else
        (case getattr_name operation of
           Inl e \<Rightarrow> (Raise e, m)
         | Inr n \<Rightarrow> operations_client_get (project_id (config m)) n m))"

function wait_loop :: "operation \<Rightarrow> string \<Rightarrow> manager \<Rightarrow> bool outcome \<times> manager" where
  "wait_loop operation operation_type m =
     (case fetch_operation operation m of
        (Return result, m') \<Rightarrow>
          (if status result = DONE then
             (case error result of
                Some err \<Rightarrow> (Return False, log_error (operation_type @ '' failed: '' @ err) m')
              | None \<Rightarrow> (Return True, log_success (operation_type @ '' completed successfully'') m'))
           else
             wait_loop operation operation_type
               (sleep 2
                 (log_info (operation_type @ '' in progress... ('' @ str_int (progress result) @ ''%)'')
                    m')))
      | (Raise e, m') \<Rightarrow> (Raise e, m')
      | (Blocked, m') \<Rightarrow> (Blocked, m'))"
  by pat_completeness auto
termination
  apply (relation "measure (\<lambda>(operation, operation_type, m).
          length (zone_operations_script m) + length (global_operations_script m))")
   apply simp
  apply (auto simp: fetch_operation_def zone_operations_client_get_def operations_client_get_def
        emit_def Let_def sleep_def log_info_def split: if_splits sum.splits list.splits)
  done

definition wait_for_operation :: "operation \<Rightarrow> string \<Rightarrow> manager \<Rightarrow> bool outcome \<times> manager" where
  "wait_for_operation operation operation_type m =
     wait_loop operation operation_type
       (log_info (''Waiting for '' @ operation_type @ '' to complete...'') m)"

subsection \<open>create_firewall_rule\<close>

definition firewall_rule_name :: "config \<Rightarrow> string" where
  "firewall_rule_name cfg = vm_name cfg @ ''-allow-http''"

definition http_firewall_rule :: "string \<Rightarrow> firewall_resource" where
  "http_firewall_rule rule_name = \<lparr>
     fw_name = rule_name,
     fw_direction = ''INGRESS'',
     fw_priority = 1000,
     fw_source_ranges = [''0.0.0.0/0''],
     fw_target_tags = [''http-server''],
     fw_allowed = [(''tcp'', [''80'', ''443''])] \<rparr>"

text \<open>The body of the \<open>try\<close> of \<open>create_firewall_rule\<close>.\<close>

definition create_firewall_rule_try :: "string \<Rightarrow> manager \<Rightarrow> bool outcome \<times> manager" where
  "create_firewall_rule_try rule_name =
     and_then (\<lambda>m. firewalls_client_insert (project_id (config m)) (http_firewall_rule rule_name) m)
       (\<lambda>operation. and_then (wait_for_operation operation ''firewall rule creation'')
          (\<lambda>ok m. if ok
             then (Return True, log_success (''Firewall rule '' @ rule_name @ '' created'') m)
             else (Return False, m)))"

text \<open>
  The existence check is under a bare \<open>except\<close>: whatever it raises, the rule is taken
  not to exist.
\<close>

definition create_firewall_rule :: "manager \<Rightarrow> bool outcome \<times> manager" where
  "create_firewall_rule m =
     (if \<not> enable_http_server (config m) then (Return True, m)
      else
        let rule_name = firewall_rule_name (config m) in
        case firewalls_client_get (project_id (config m)) rule_name m of
          (Return existing_rule, m') \<Rightarrow>
            (Return True, log_info (''Firewall rule '' @ rule_name @ '' already exists'') m')
        | (Blocked, m') \<Rightarrow> (Blocked, m')
        | (Raise e, m') \<Rightarrow>
            try_except (create_firewall_rule_try rule_name)
              (\<lambda>e m. (Return False, log_error (''Failed to create firewall rule: '' @ str_exn e) m))
              (log_info (''Creating firewall rule: '' @ rule_name) m'))"

subsection \<open>get_instance_status and show_access_info\<close>

definition get_instance_status :: "manager \<Rightarrow> string option outcome \<times> manager" where
  "get_instance_status m =
     (case instances_client_get (project_id (config m)) (get_zone (config m)) (vm_name (config m)) m of
        (Return inst, m') \<Rightarrow> (Return (Some (inst_status inst)), m')
      | (Raise e, m') \<Rightarrow> (Return None, log_error (''Failed to get instance status: '' @ str_exn e) m')
      | (Blocked, m') \<Rightarrow> (Blocked, m'))"

text \<open>What \<open>show_access_info\<close> prints for an instance that was fetched.\<close>

definition access_info_lines :: "config \<Rightarrow> vm_instance \<Rightarrow> event list" where
  "access_info_lines cfg inst =
     Print ''=== Access Information ==='' #
     (case network_interfaces inst of
        [] \<Rightarrow> []
      | access_configs # others \<Rightarrow>
          (case access_configs of
             [] \<Rightarrow> []
           | external_ip # rest \<Rightarrow>
               [Print ''SSH Command:'',
                Print (''  gcloud compute ssh '' @ vm_name cfg @ '' --zone='' @ get_zone cfg
                       @ '' --project='' @ project_id cfg),
                Print (''External IP: '' @ external_ip)]
               @ (if enable_http_server cfg then [Print (''Web URL: http://'' @ external_ip)] else [])))"

definition show_access_info :: "manager \<Rightarrow> unit outcome \<times> manager" where
  "show_access_info m =
     (case instances_client_get (project_id (config m)) (get_zone (config m)) (vm_name (config m)) m of
        (Return inst, m') \<Rightarrow> (Return (), emit (access_info_lines (config m') inst) m')
      | (Raise e, m') \<Rightarrow> (Return (), log_error (''Failed to get access information: '' @ str_exn e) m')
      | (Blocked, m') \<Rightarrow> (Blocked, m'))"

subsection \<open>stop_instance\<close>

definition stop_instance_try :: "string \<Rightarrow> string \<Rightarrow> manager \<Rightarrow> bool outcome \<times> manager" where
  "stop_instance_try instance_name z =
     and_then (\<lambda>m. instances_client_mutate (InstancesStop (project_id (config m)) z instance_name) m)
       (\<lambda>operation. and_then (wait_for_operation operation ''instance stop'')
          (\<lambda>ok m. if ok
             then
               (let m = log_success (''Instance '' @ instance_name @ '' stopped successfully!'') m;
                    m = m\<lparr>config := (config m)\<lparr>instance_state := ''TERMINATED''\<rparr>\<rparr>;
                    m = save_config m
                in (Return True, m))
             else (Return False, m)))"

definition stop_instance :: "manager \<Rightarrow> bool outcome \<times> manager" where
  "stop_instance m =
     (let instance_name = vm_name (config m); z = get_zone (config m) in
      case get_instance_status m of
        (Return st, m') \<Rightarrow>
          (if st = Some ''TERMINATED'' \<or> st = Some ''STOPPED'' then
             (Return True, log_warning (''Instance '' @ instance_name @ '' is already stopped'') m')
           else if st = None then
             (Return False, log_error (''Instance '' @ instance_name @ '' not found'') m')
           else
             try_except (stop_instance_try instance_name z)
               (\<lambda>e m. (Return False, log_error (''Failed to stop instance: '' @ str_exn e) m))
               (log_info (''Stopping instance '' @ instance_name @ ''...'') m'))
      | (Raise e, m') \<Rightarrow> (Raise e, m')
      | (Blocked, m') \<Rightarrow> (Blocked, m'))"

subsection \<open>start_instance\<close>

definition start_instance_try :: "string \<Rightarrow> string \<Rightarrow> manager \<Rightarrow> bool outcome \<times> manager" where
  "start_instance_try instance_name z =
     and_then (\<lambda>m. instances_client_mutate (InstancesStart (project_id (config m)) z instance_name) m)
       (\<lambda>operation. and_then (wait_for_operation operation ''instance start'')
          (\<lambda>ok m. if ok
             then
               (let m = log_success (''Instance '' @ instance_name @ '' started successfully!'') m;
                    m = m\<lparr>config := (config m)\<lparr>instance_state := ''RUNNING''\<rparr>\<rparr>;
                    m = save_config m;
                    m = sleep 5 m
                in and_then show_access_info (\<lambda>u m. (Return True, m)) m)
             else (Return False, m)))"

definition start_instance :: "manager \<Rightarrow> bool outcome \<times> manager" where
  "start_instance m =
     (let instance_name = vm_name (config m); z = get_zone (config m) in
      case get_instance_status m of
        (Return st, m') \<Rightarrow>
          (if st = Some ''RUNNING'' then
             (Return True, log_warning (''Instance '' @ instance_name @ '' is already running'') m')
           else if st = None then
             (Return False, log_error (''Instance '' @ instance_name @ '' not found'') m')
           else
             try_except (start_instance_try instance_name z)
               (\<lambda>e m. (Return False, log_error (''Failed to start instance: '' @ str_exn e) m))
               (log_info (''Starting instance '' @ instance_name @ ''...'') m'))
      | (Raise e, m') \<Rightarrow> (Raise e, m')
      | (Blocked, m') \<Rightarrow> (Blocked, m'))"

subsection \<open>restart_instance and delete_instance\<close>





subsection \<open>create_instance\<close>

text \<open>\<open>self.os_images\<close>\<close>

definition os_images :: "(string \<times> string) list" where
  "os_images = [
     (''ubuntu'', ''projects/ubuntu-os-cloud/global/images/ubuntu-minimal-2504-plucky-amd64-v20250624''),
     (''debian'', ''projects/debian-cloud/global/images/family/debian-12''),
     (''centos'', ''projects/centos-cloud/global/images/family/centos-stream-9''),
     (''rhel'', ''projects/rhel-cloud/global/images/family/rhel-9'')]"

text \<open>\<open>d[k]\<close> on a dictionary: a missing key raises \<open>KeyError\<close>.\<close>

definition getitem :: "(string \<times> 'v) list \<Rightarrow> string \<Rightarrow> exn + 'v" where
  "getitem d k = (case map_of d k of None \<Rightarrow> Inl (KeyError k) | Some v \<Rightarrow> Inr v)"

text \<open>\<open>d.update(other)\<close>\<close>

definition dict_update :: "(string \<times> 'v) list \<Rightarrow> (string \<times> 'v) list \<Rightarrow> (string \<times> 'v) list" where
  "dict_update d other = fold (\<lambda>(k, v). AList.update k v) other d"

text \<open>
  The instance resource, built between the firewall rule and the \<open>try\<close> block. The
  lookup of the image is the one step of it that can raise.
\<close>

definition build_instance :: "config \<Rightarrow> exn + instance_resource" where
  "build_instance cfg =
     (let instance_name = vm_name cfg; z = get_zone cfg in
      case getitem os_images (os_choice cfg) of
        Inl e \<Rightarrow> Inl e
      | Inr source_image \<Rightarrow> Inr \<lparr>
          ir_name = instance_name,
          ir_machine_type = ''zones/'' @ z @ ''/machineTypes/'' @ machine_type cfg,
          ir_disk_auto_delete = True,
          ir_disk_boot = True,
          ir_disk_device_name = ''boot-disk'',
          ir_source_image = source_image,
          ir_disk_size_gb = disk_size cfg,
          ir_disk_type = ''zones/'' @ z @ ''/diskTypes/pd-standard'',
          ir_network = ''projects/'' @ project_id cfg @ ''/global/networks/default'',
          ir_access_configs = [(''ONE_TO_ONE_NAT'', ''External NAT'')],
          ir_preemptible = preemptible cfg,
          ir_automatic_restart = (auto_restart cfg \<and> \<not> preemptible cfg),
          ir_on_host_maintenance = (if preemptible cfg then ''TERMINATE'' else ''MIGRATE''),
          ir_service_accounts =
            (if enable_monitoring cfg
             then [(''default'', [''https://www.googleapis.com/auth/monitoring.write'',
                                  ''https://www.googleapis.com/auth/logging.write''])]
             else []),
          ir_metadata = [(''startup-script'', generate_startup_script cfg),
                         (''enable-oslogin'', ''true'')],
          ir_tags =
            (if enable_http_server cfg \<and> ''http-server'' \<notin> set (tags cfg)
             then tags cfg @ [''http-server''] else tags cfg),
          ir_labels = dict_update (labels cfg) [
            (''os-type'', os_choice cfg),
            (''managed-by'', ''python-script''),
            (''instance-state'', lower (instance_state cfg)),
            (''preemptible'', lower (str_bool (preemptible cfg)))] \<rparr>)"

text \<open>The body of the \<open>try\<close> of \<open>create_instance\<close>; the result of \<open>stop_instance\<close> is dropped.\<close>

definition create_instance_try ::
  "string \<Rightarrow> string \<Rightarrow> instance_resource \<Rightarrow> manager \<Rightarrow> bool outcome \<times> manager" where
  "create_instance_try instance_name z inst =
     and_then (\<lambda>m. instances_client_mutate (InstancesInsert (project_id (config m)) z inst)
                  (log_info ''Submitting instance creation request...'' m))
       (\<lambda>operation. and_then (wait_for_operation operation ''instance creation'')
          (\<lambda>ok m. if ok
             then
               (let m = log_success (''VM instance '' @ instance_name @ '' created successfully!'') m
                in if instance_state (config m) = ''TERMINATED''
                   then and_then stop_instance (\<lambda>stopped m. (Return True, m))
                          (log_info ''Stopping instance as per configuration...'' m)
                   else (Return True, m))
             else (Return False, m)))"

definition create_instance_banner :: "config \<Rightarrow> manager \<Rightarrow> manager" where
  "create_instance_banner cfg m =
     (let m = log_info (''=== Creating VM Instance: '' @ vm_name cfg @ '' ==='') m;
          m = log_info (''Project: '' @ project_id cfg) m;
          m = log_info (''Zone: '' @ get_zone cfg) m;
          m = log_info (''Machine Type: '' @ machine_type cfg) m;
          m = log_info (''OS: '' @ os_choice cfg) m;
          m = log_info (''Disk Size: '' @ str_int (disk_size cfg) @ '' GB'') m;
          m = log_info (''HTTP Server: '' @ str_bool (enable_http_server cfg)) m;
          m = log_info (''Preemptible: '' @ str_bool (preemptible cfg)) m
      in m)"

text \<open>
  The existence check is under a bare \<open>except\<close>: whatever it raises, the instance is taken
  not to exist.
\<close>

definition create_instance :: "manager \<Rightarrow> bool outcome \<times> manager" where
  "create_instance m =
     (let instance_name = vm_name (config m); z = get_zone (config m);
          m = create_instance_banner (config m) m in
      case instances_client_get (project_id (config m)) z instance_name m of
        (Return existing_instance, m') \<Rightarrow>
          (Return True, log_warning (''Instance '' @ instance_name @ '' already exists'') m')
      | (Blocked, m') \<Rightarrow> (Blocked, m')
      | (Raise e, m') \<Rightarrow>
          (case create_firewall_rule m' of
             (Return ok, m'') \<Rightarrow>
               (if \<not> ok then (Return False, log_error ''Failed to create firewall rule'' m'')
                else
                  (case build_instance (config m'') of
                     Inl e \<Rightarrow> (Raise e, m'')
                   | Inr inst \<Rightarrow>
                       try_except (create_instance_try instance_name z inst)
                         (\<lambda>e m. (Return False, log_error (''Failed to create instance: '' @ str_exn e) m))
                         m''))
           | (Raise e, m'') \<Rightarrow> (Raise e, m'')
           | (Blocked, m'') \<Rightarrow> (Blocked, m'')))"

section \<open>Loading the configuration\<close>

text \<open>
  What \<open>json.load\<close> returns. Numbers are integers here; a document with a fraction is
  outside the model.
\<close>

datatype json =
    JNull
  | JBool bool
  | JInt int
  | JStr string
  | JList "json list"
  | JObj "(string \<times> json) list"

text \<open>
  The configuration file: missing, or present with what opening and parsing it gives, an
  exception or a document.
\<close>

datatype file_state = Missing | Present "exn + json"

text \<open>
  The object while \<open>__init__\<close> runs: \<open>logger\<close> tells whether the attribute \<open>self.logger\<close>
  has been set, and \<open>create_error\<close> is the exception that opening the file for writing
  raises, if any.
\<close>

record boot =
  boot_config_file :: string
  disk_file :: file_state
  logger :: bool
  create_error :: "exn option"
  out :: "event list"

text \<open>The dictionary \<open>default_config\<close> of \<open>load_config\<close>, in the order of the source.\<close>

definition default_config :: "(string \<times> json) list" where
  "default_config = [
     (''project_id'', JStr ''your-gcp-project-id''),
     (''region'', JStr ''us-central1''),
     (''zone'', JStr []),
     (''vm_name'', JStr ''python-managed-vm''),
     (''machine_type'', JStr ''e2-micro''),
     (''os_choice'', JStr ''ubuntu''),
     (''disk_size'', JInt 20),
     (''enable_http_server'', JBool True),
     (''enable_monitoring'', JBool False),
     (''instance_state'', JStr ''RUNNING''),
     (''auto_start'', JBool True),
     (''auto_restart'', JBool True),
     (''preemptible'', JBool False),
     (''tags'', JList [JStr ''python-managed'', JStr ''http-server'']),
     (''labels'', JObj [(''created-by'', JStr ''python-script''),
                        (''environment'', JStr ''development'')])]"

text \<open>
  \<open>key in config\<close>: key membership on a dictionary, element membership on a list,
  substring on a string, \<open>TypeError\<close> on anything else.
\<close>

fun py_contains :: "json \<Rightarrow> string \<Rightarrow> exn + bool" where
  "py_contains (JObj kvs) key = Inr (key \<in> set (map fst kvs))"
| "py_contains (JList xs) key = Inr (JStr key \<in> set xs)"
| "py_contains (JStr s) key = Inr (sublist key s)"
| "py_contains j key = Inl (TypeError ''argument is not iterable'')"

text \<open>\<open>config[key] = value\<close>: only a dictionary takes a string key.\<close>

fun py_setitem :: "json \<Rightarrow> string \<Rightarrow> json \<Rightarrow> exn + json" where
  "py_setitem (JObj kvs) key v = Inr (JObj (AList.update key v kvs))"
| "py_setitem j key v = Inl (TypeError ''object does not support item assignment'')"

text \<open>The loop over \<open>default_config.items()\<close>.\<close>

fun merge_defaults :: "(string \<times> json) list \<Rightarrow> json \<Rightarrow> exn + json" where
  "merge_defaults [] cfg = Inr cfg"
| "merge_defaults ((key, v) # items) cfg =
     (case py_contains cfg key of
        Inl e \<Rightarrow> Inl e
      | Inr True \<Rightarrow> merge_defaults items cfg
      | Inr False \<Rightarrow>
          (case py_setitem cfg key v of
             Inl e \<Rightarrow> Inl e
           | Inr cfg' \<Rightarrow> merge_defaults items cfg'))"

text \<open>
  \<open>log_info\<close> and \<open>log_error\<close> on an object under construction: the line is printed, then
  \<open>self.logger\<close> is read, which raises \<open>AttributeError\<close> when it has not been set.
\<close>

definition boot_log :: "level \<Rightarrow> string \<Rightarrow> string \<Rightarrow> boot \<Rightarrow> unit outcome \<times> boot" where
  "boot_log lvl tag message b =
     (let b = b\<lparr>out := out b @ [Print (tag @ message)]\<rparr> in
      if logger b then (Return (), b\<lparr>out := out b @ [Log lvl message]\<rparr>)
      else (Raise (AttributeError ''logger''), b))"

definition load_config :: "boot \<Rightarrow> json outcome \<times> boot" where
  "load_config b =
     (case disk_file b of
        Present content \<Rightarrow>
          (case (case content of
                   Inl e \<Rightarrow> Inl e
                 | Inr cfg \<Rightarrow> merge_defaults default_config cfg) of
             Inr cfg \<Rightarrow> (Return cfg, b)
           | Inl e \<Rightarrow>
               (case boot_log ERROR ''[ERROR] '' (''Error loading config: '' @ str_exn e) b of
                  (Return u, b') \<Rightarrow> (Return (JObj default_config), b')
                | (Raise e', b') \<Rightarrow> (Raise e', b')
                | (Blocked, b') \<Rightarrow> (Blocked, b')))
      | Missing \<Rightarrow>
          (case create_error b of
             Some e \<Rightarrow> (Raise e, b)
           | None \<Rightarrow>
               (let b = b\<lparr>disk_file := Present (Inr (JObj default_config))\<rparr> in
                case boot_log INFO ''[INFO] ''
                       (''Created default config file: '' @ boot_config_file b) b of
                  (Return u, b') \<Rightarrow> (Return (JObj default_config), b')
                | (Raise e', b') \<Rightarrow> (Raise e', b')
                | (Blocked, b') \<Rightarrow> (Blocked, b'))))"

text \<open>
  \<open>__init__\<close>, up to the assignment of \<open>self.config\<close>: \<open>load_config\<close> is called on the
  fresh object, before \<open>setup_logging\<close> sets \<open>self.logger\<close>.
\<close>

definition VMManager_init :: "string \<Rightarrow> file_state \<Rightarrow> exn option \<Rightarrow> json outcome \<times> boot" where
  "VMManager_init path f werr =
     load_config \<lparr> boot_config_file = path, disk_file = f, logger = False, create_error = werr, out = [] \<rparr>"

section \<open>Observations\<close>

text \<open>The requests sent, and the configurations written to the file, in a trace.\<close>

fun requests_of :: "event list \<Rightarrow> request list" where
  "requests_of [] = []"
| "requests_of (Call r # es) = r # requests_of es"
| "requests_of (e # es) = requests_of es"

fun writes_of :: "event list \<Rightarrow> config list" where
  "writes_of [] = []"
| "writes_of (Write c # es) = c # writes_of es"
| "writes_of (e # es) = writes_of es"

text \<open>The client method of a request.\<close>

fun request_name :: "request \<Rightarrow> string" where
  "request_name (InstancesGet p z i) = ''instances.get''"
| "request_name (InstancesInsert p z r) = ''instances.insert''"
| "request_name (InstancesStart p z i) = ''instances.start''"
| "request_name (InstancesStop p z i) = ''instances.stop''"
| "request_name (InstancesReset p z i) = ''instances.reset''"
| "request_name (InstancesDelete p z i) = ''instances.delete''"
| "request_name (FirewallsGet p f) = ''firewalls.get''"
| "request_name (FirewallsInsert p r) = ''firewalls.insert''"
| "request_name (ZoneOperationsGet p z n) = ''zoneOperations.get''"
| "request_name (GlobalOperationsGet p n) = ''globalOperations.get''"

text \<open>
  The provider has stopped answering: one of the scripts that the program reads has run
  out.
\<close>

definition starved :: "manager \<Rightarrow> bool" where
  "starved m =
     (instances_get_script m = [] \<or> instances_mutate_script m = []
      \<or> firewalls_get_script m = [] \<or> firewalls_insert_script m = []
      \<or> zone_operations_script m = [] \<or> global_operations_script m = [])"

text \<open>
  Nothing of the configuration has changed between two states: not the dictionary in
  memory, not the file, and no write has been made.
\<close>

definition untouched :: "manager \<Rightarrow> manager \<Rightarrow> bool" where
  "untouched m m' =
     (config m' = config m \<and> disk m' = disk m \<and> write_error m' = write_error m
      \<and> config_file m' = config_file m \<and> writes_of (trace m') = writes_of (trace m))"

text \<open>
  A step that leaves the configuration alone: the trace has only grown, nothing was
  written, and if the step is blocked then the provider has stopped answering.
\<close>

definition quiet_step :: "manager \<Rightarrow> 'a outcome \<times> manager \<Rightarrow> bool" where
  "quiet_step m res =
     (untouched m (snd res) \<and> prefix (trace m) (trace (snd res))
      \<and> (fst res = Blocked \<longrightarrow> starved (snd res)))"

text \<open>
  In a list of events, every write to the configuration file comes after the first
  occurrence of the event \<open>ev\<close>; when \<open>ev\<close> does not occur there is no write.
\<close>

definition written_only_after :: "event \<Rightarrow> event list \<Rightarrow> bool" where
  "written_only_after ev es = (writes_of (takeWhile (\<lambda>e. e \<noteq> ev) es) = [])"

text \<open>The events that a step has added to the trace of \<open>m\<close>.\<close>

definition new_events :: "manager \<Rightarrow> manager \<Rightarrow> event list" where
  "new_events m m' = drop (length (trace m)) (trace m')"

text \<open>
  A step that changes the configuration only behind the success of the operation
  \<open>t\<close> it waits for: a step that fails has left the configuration alone, every
  write comes after the report of that success, and the dictionary in memory differs only
  if that report is there.
\<close>

definition guarded :: "string \<Rightarrow> manager \<Rightarrow> bool outcome \<times> manager \<Rightarrow> bool" where
  "guarded t m res =
     (prefix (trace m) (trace (snd res))
      \<and> (fst res = Blocked \<longrightarrow> starved (snd res))
      \<and> (fst res \<noteq> Return True \<and> fst res \<noteq> Blocked \<longrightarrow> untouched m (snd res))
      \<and> written_only_after (Log SUCCESS (t @ '' completed successfully''))
           (new_events m (snd res))
      \<and> (config (snd res) \<noteq> config m \<longrightarrow>
           Log SUCCESS (t @ '' completed successfully'') \<in> set (new_events m (snd res))))"

section \<open>Example inputs\<close>

definition demo_config :: config where
  "demo_config = default_config_record\<lparr>vm_name := ''demo''\<rparr>"

definition west_config :: config where
  "west_config = default_config_record\<lparr>region := ''us-west1''\<rparr>"

definition debian_config :: config where
  "debian_config = demo_config\<lparr>os_choice := ''debian''\<rparr>"

definition windows_config :: config where
  "windows_config = demo_config\<lparr>os_choice := ''windows''\<rparr>"

definition idle_manager :: manager where
  "idle_manager = \<lparr>
     config_file = ''vm_config.json'',
     config = demo_config,
     disk = None,
     write_error = None,
     instances_get_script = [],
     instances_mutate_script = [],
     firewalls_get_script = [],
     firewalls_insert_script = [],
     zone_operations_script = [],
     global_operations_script = [],
     trace = [] \<rparr>"

definition zone_op :: operation where
  "zone_op = \<lparr>op_name = Some ''operation-1'', op_scope = ZoneScoped\<rparr>"

definition global_op :: operation where
  "global_op = \<lparr>op_name = Some ''operation-2'', op_scope = GlobalScoped\<rparr>"

definition obs_pending :: operation_result where
  "obs_pending = \<lparr>status = PENDING, error = None, progress = 0\<rparr>"

definition obs_running :: operation_result where
  "obs_running = \<lparr>status = RUNNING, error = None, progress = 50\<rparr>"

definition obs_done :: operation_result where
  "obs_done = \<lparr>status = DONE, error = None, progress = 100\<rparr>"

definition obs_failed :: operation_result where
  "obs_failed = \<lparr>status = DONE, error = Some ''QUOTA_EXCEEDED'', progress = 100\<rparr>"

definition stopped_instance :: vm_instance where
  "stopped_instance = \<lparr>inst_status = ''TERMINATED'', network_interfaces = []\<rparr>"

definition running_instance :: vm_instance where
  "running_instance = \<lparr>inst_status = ''RUNNING'', network_interfaces = [[''203.0.113.7'']]\<rparr>"

text \<open>A running instance, a stop that is accepted, and an operation that ends in an error.\<close>

definition failing_stop_manager :: manager where
  "failing_stop_manager = idle_manager\<lparr>
     instances_get_script := [Inr running_instance],
     instances_mutate_script := [Inr zone_op],
     zone_operations_script := [Inr obs_failed]\<rparr>"

text \<open>
  A stopped instance whose configuration wants it stopped, a start that is accepted and
  completes, and the instance running when the access information is fetched.
\<close>

definition starting_manager :: manager where
  "starting_manager = idle_manager\<lparr>
     config := demo_config\<lparr>instance_state := ''TERMINATED''\<rparr>,
     instances_get_script := [Inr stopped_instance, Inr running_instance],
     instances_mutate_script := [Inr zone_op],
     zone_operations_script := [Inr obs_running, Inr obs_done]\<rparr>"

text \<open>A running instance, a stop that is accepted and completes.\<close>

definition stopping_manager :: manager where
  "stopping_manager = idle_manager\<lparr>
     instances_get_script := [Inr running_instance],
     instances_mutate_script := [Inr zone_op],
     zone_operations_script := [Inr obs_running, Inr obs_done]\<rparr>"

text \<open>No instance of the configured name.\<close>

definition missing_manager :: manager where
  "missing_manager = idle_manager\<lparr>instances_get_script := [Inl (ApiError ''404'')]\<rparr>"



section \<open>The startup script\<close>

lemma sublist_text_lines: "l \<in> set ls \<Longrightarrow> sublist l (text_lines ls)"
proof (induction ls)
  case Nil
  then show ?case by simp
next
  case (Cons a ls)
  show ?case
  proof (cases "l = a")
    case True
    then show ?thesis by (simp add: text_lines_def)
  next
    case False
    with Cons have "sublist l (text_lines ls)" by simp
    then obtain ps ss where "text_lines ls = ps @ l @ ss"
      by (auto simp: sublist_def)
    then have "text_lines (a # ls) = (a @ [CHR 0x0A] @ ps) @ l @ ss"
      by (simp add: text_lines_def)
    then show ?thesis unfolding sublist_def by blast
  qed
qed

lemma sublist_in_line:
  assumes "(pre @ x @ post) \<in> set ls"
  shows "sublist x (text_lines ls)"
proof -
  have "sublist (pre @ x @ post) (text_lines ls)"
    using assms by (rule sublist_text_lines)
  moreover have "sublist x (pre @ x @ post)"
    by (rule sublist_appendI)
  ultimately show ?thesis
    by (meson sublist_order.order_trans)
qed

lemma sublist_mid: "sublist x b \<Longrightarrow> sublist x (a @ b @ c)"
proof -
  assume "sublist x b"
  then obtain ps ss where "b = ps @ x @ ss" by (auto simp: sublist_def)
  then have "a @ b @ c = (a @ ps) @ x @ (ss @ c)" by simp
  then show ?thesis unfolding sublist_def by blast
qed

lemma script_shape:
  "generate_startup_script cfg = script_header cfg @
     (if enable_http_server cfg \<and> os_choice cfg = ''ubuntu'' then apache_section cfg
      else if enable_http_server cfg \<and> os_choice cfg = ''debian'' then nginx_section cfg
      else []) @ script_footer cfg"
  by (simp add: generate_startup_script_def Let_def)

lemma name_in_header: "sublist (vm_name cfg) (script_header cfg)"
  unfolding script_header_def
  by (rule sublist_in_line[where pre = "''echo \"VM Name: ''"
        and post = "''\" | tee -a /var/log/startup.log''"]) simp

lemma zone_in_header: "sublist (get_zone cfg) (script_header cfg)"
  unfolding script_header_def
  by (rule sublist_in_line[where pre = "''echo \"Zone: ''"
        and post = "''\" | tee -a /var/log/startup.log''"]) simp

lemma sublist_header_script:
  "sublist x (script_header cfg) \<Longrightarrow> sublist x (generate_startup_script cfg)"
  using sublist_mid[of x "script_header cfg" "[]"] by (simp add: script_shape)

text \<open>
  C7. The script is a function of the configuration alone, and of six of its keys only:
  two configurations that agree on them give the same script, character for character.
  The script contains the configured instance name and the resolved zone, and the
  resolved zone is the configured zone when that is not empty and the region followed by
  \<open>-a\<close> when it is.
\<close>

theorem generate_startup_script_deterministic_name_zone:
  assumes "os_choice c' = os_choice c" and "vm_name c' = vm_name c"
    and "machine_type c' = machine_type c" and "zone c' = zone c" and "region c' = region c"
    and "enable_http_server c' = enable_http_server c"
  shows "generate_startup_script c' = generate_startup_script c
    \<and> sublist (vm_name c) (generate_startup_script c)
    \<and> sublist (get_zone c) (generate_startup_script c)
    \<and> get_zone c = (if zone c = [] then region c @ ''-a'' else zone c)"
proof -
  have z: "get_zone c' = get_zone c"
    using assms by (simp add: get_zone_def)
  have "generate_startup_script c' = generate_startup_script c"
    using assms z
    by (simp add: script_shape script_header_def script_footer_def apache_section_def
        nginx_section_def)
  moreover have "sublist (vm_name c) (generate_startup_script c)"
    by (rule sublist_header_script) (rule name_in_header)
  moreover have "sublist (get_zone c) (generate_startup_script c)"
    by (rule sublist_header_script) (rule zone_in_header)
  moreover have "get_zone c = (if zone c = [] then region c @ ''-a'' else zone c)"
    by (simp add: get_zone_def)
  ultimately show ?thesis by blast
qed

theorem generate_startup_script_deterministic_name_zone_witness:
  "generate_startup_script (west_config\<lparr>disk_size := 50\<rparr>) = generate_startup_script west_config
   \<and> sublist ''python-managed-vm'' (generate_startup_script west_config)
   \<and> sublist ''us-west1-a'' (generate_startup_script west_config)
   \<and> get_zone west_config = ''us-west1-a''"
proof -
  have "get_zone west_config = ''us-west1-a''"
    by (simp add: get_zone_def west_config_def default_config_record_def)
  moreover have "vm_name west_config = ''python-managed-vm''"
    by (simp add: west_config_def default_config_record_def)
  ultimately show ?thesis
    using generate_startup_script_deterministic_name_zone
      [of "west_config\<lparr>disk_size := 50\<rparr>" west_config]
    by auto
qed

lemma in_apache_section:
  assumes "pre @ x @ post \<in> set [
       ''apt-get install -y apache2 2>&1 | tee -a /var/log/startup.log'',
       ''systemctl start apache2 2>&1 | tee -a /var/log/startup.log'',
       ''<p>VM: '' @ vm_name cfg @ ''</p>'',
       ''<p>Zone: '' @ get_zone cfg @ ''</p>'',
       ''<p>Machine Type: '' @ machine_type cfg @ ''</p>'']"
  shows "sublist x (apache_section cfg)"
  unfolding apache_section_def
  by (rule sublist_in_line[where pre = pre and post = post]) (use assms in auto)

lemma in_nginx_section:
  assumes "pre @ x @ post \<in> set [
       ''apt-get install -y nginx 2>&1 | tee -a /var/log/startup.log'',
       ''systemctl start nginx 2>&1 | tee -a /var/log/startup.log'',
       ''echo \"<h1>Hello from Debian!</h1><p>VM: '' @ vm_name cfg @ ''</p>\" > /var/www/html/index.html'']"
  shows "sublist x (nginx_section cfg)"
  unfolding nginx_section_def
  by (rule sublist_in_line[where pre = pre and post = post]) (use assms in auto)

lemma apache_contents:
  "sublist ''apt-get install -y apache2'' (apache_section cfg)"
  "sublist ''systemctl start apache2'' (apache_section cfg)"
  "sublist (''<p>VM: '' @ vm_name cfg @ ''</p>'') (apache_section cfg)"
  "sublist (''<p>Zone: '' @ get_zone cfg @ ''</p>'') (apache_section cfg)"
  "sublist (''<p>Machine Type: '' @ machine_type cfg @ ''</p>'') (apache_section cfg)"
proof -
  show "sublist ''apt-get install -y apache2'' (apache_section cfg)"
    by (rule in_apache_section[where pre = "[]" and post = "'' 2>&1 | tee -a /var/log/startup.log''"]) simp
  show "sublist ''systemctl start apache2'' (apache_section cfg)"
    by (rule in_apache_section[where pre = "[]" and post = "'' 2>&1 | tee -a /var/log/startup.log''"]) simp
  show "sublist (''<p>VM: '' @ vm_name cfg @ ''</p>'') (apache_section cfg)"
    by (rule in_apache_section[where pre = "[]" and post = "[]"]) simp
  show "sublist (''<p>Zone: '' @ get_zone cfg @ ''</p>'') (apache_section cfg)"
    by (rule in_apache_section[where pre = "[]" and post = "[]"]) simp
  show "sublist (''<p>Machine Type: '' @ machine_type cfg @ ''</p>'') (apache_section cfg)"
    by (rule in_apache_section[where pre = "[]" and post = "[]"]) simp
qed

lemma nginx_contents:
  "sublist ''apt-get install -y nginx'' (nginx_section cfg)"
  "sublist ''systemctl start nginx'' (nginx_section cfg)"
  "sublist (''<p>VM: '' @ vm_name cfg @ ''</p>'') (nginx_section cfg)"
proof -
  show "sublist ''apt-get install -y nginx'' (nginx_section cfg)"
    by (rule in_nginx_section[where pre = "[]" and post = "'' 2>&1 | tee -a /var/log/startup.log''"]) simp
  show "sublist ''systemctl start nginx'' (nginx_section cfg)"
    by (rule in_nginx_section[where pre = "[]" and post = "'' 2>&1 | tee -a /var/log/startup.log''"]) simp
  show "sublist (''<p>VM: '' @ vm_name cfg @ ''</p>'') (nginx_section cfg)"
    by (rule in_nginx_section[where pre = "''echo \"<h1>Hello from Debian!</h1>''"
          and post = "''\" > /var/www/html/index.html''"]) simp
qed

text \<open>
  C8. With the HTTP feature enabled the script is the header, one section chosen by
  \<open>os_choice\<close>, and the footer. For \<open>ubuntu\<close> the section installs and starts Apache and
  writes a page with the instance name, the zone and the machine type; for \<open>debian\<close> it
  installs and starts Nginx and writes a page with the instance name; for any other value
  nothing stands between the header and the footer. The header and the footer, with their
  log lines, are there in every case.
\<close>

theorem generate_startup_script_http_sections:
  assumes "enable_http_server cfg"
  shows "(if os_choice cfg = ''ubuntu'' then
            generate_startup_script cfg = script_header cfg @ apache_section cfg @ script_footer cfg
            \<and> sublist ''apt-get install -y apache2'' (generate_startup_script cfg)
            \<and> sublist ''systemctl start apache2'' (generate_startup_script cfg)
            \<and> sublist (''<p>VM: '' @ vm_name cfg @ ''</p>'') (generate_startup_script cfg)
            \<and> sublist (''<p>Zone: '' @ get_zone cfg @ ''</p>'') (generate_startup_script cfg)
            \<and> sublist (''<p>Machine Type: '' @ machine_type cfg @ ''</p>'') (generate_startup_script cfg)
          else if os_choice cfg = ''debian'' then
            generate_startup_script cfg = script_header cfg @ nginx_section cfg @ script_footer cfg
            \<and> sublist ''apt-get install -y nginx'' (generate_startup_script cfg)
            \<and> sublist ''systemctl start nginx'' (generate_startup_script cfg)
            \<and> sublist (''<p>VM: '' @ vm_name cfg @ ''</p>'') (generate_startup_script cfg)
          else generate_startup_script cfg = script_header cfg @ script_footer cfg)
    \<and> prefix (script_header cfg) (generate_startup_script cfg)
    \<and> suffix (script_footer cfg) (generate_startup_script cfg)
    \<and> sublist (''=== Starting '' @ title (os_choice cfg) @ '' VM Setup ==='') (script_header cfg)
    \<and> sublist (''=== '' @ title (os_choice cfg) @ '' VM Setup Complete ==='') (script_footer cfg)"
proof -
  have shape: "generate_startup_script cfg = script_header cfg @
     (if os_choice cfg = ''ubuntu'' then apache_section cfg
      else if os_choice cfg = ''debian'' then nginx_section cfg else []) @ script_footer cfg"
    using assms by (simp add: script_shape)
  have pre: "prefix (script_header cfg) (generate_startup_script cfg)"
    by (simp add: script_shape)
  have suf: "suffix (script_footer cfg) (generate_startup_script cfg)"
    unfolding script_shape suffix_def by (metis append.assoc)
  have hd: "sublist (''=== Starting '' @ title (os_choice cfg) @ '' VM Setup ==='') (script_header cfg)"
    unfolding script_header_def
    by (rule sublist_in_line[where pre = "''echo \"''"
          and post = "''\" | tee -a /var/log/startup.log''"]) simp
  have ft: "sublist (''=== '' @ title (os_choice cfg) @ '' VM Setup Complete ==='') (script_footer cfg)"
    unfolding script_footer_def
    by (rule sublist_in_line[where pre = "''echo \"''"
          and post = "''\" | tee -a /var/log/startup.log''"]) simp
  show ?thesis
  proof (cases "os_choice cfg = ''ubuntu''")
    case True
    then have s: "generate_startup_script cfg = script_header cfg @ apache_section cfg @ script_footer cfg"
      using shape by simp
    have "sublist x (apache_section cfg) \<Longrightarrow> sublist x (generate_startup_script cfg)" for x
      unfolding s by (rule sublist_mid)
    with apache_contents[of cfg] s pre suf hd ft True show ?thesis
      by simp
  next
    case False
    note not_ubuntu = this
    show ?thesis
    proof (cases "os_choice cfg = ''debian''")
      case True
      then have s: "generate_startup_script cfg = script_header cfg @ nginx_section cfg @ script_footer cfg"
        using shape not_ubuntu by simp
      have "sublist x (nginx_section cfg) \<Longrightarrow> sublist x (generate_startup_script cfg)" for x
        unfolding s by (rule sublist_mid)
      with nginx_contents[of cfg] s pre suf hd ft True not_ubuntu show ?thesis
        by simp
    next
      case False
      then have "generate_startup_script cfg = script_header cfg @ script_footer cfg"
        using shape not_ubuntu by simp
      with pre suf hd ft False not_ubuntu show ?thesis
        by simp
    qed
  qed
qed

theorem generate_startup_script_http_sections_witness:
  "sublist ''apt-get install -y apache2'' (generate_startup_script demo_config)
   \<and> sublist ''systemctl start apache2'' (generate_startup_script demo_config)
   \<and> sublist ''<p>VM: demo</p>'' (generate_startup_script demo_config)
   \<and> sublist ''apt-get install -y nginx'' (generate_startup_script debian_config)
   \<and> generate_startup_script windows_config
       = script_header windows_config @ script_footer windows_config
   \<and> sublist ''=== Starting Windows VM Setup ==='' (script_header windows_config)
   \<and> sublist ''=== Windows VM Setup Complete ==='' (script_footer windows_config)"
proof -
  have u: "enable_http_server demo_config" "os_choice demo_config = ''ubuntu''"
    "vm_name demo_config = ''demo''"
    by (simp_all add: demo_config_def default_config_record_def)
  have d: "enable_http_server debian_config" "os_choice debian_config = ''debian''"
    by (simp_all add: debian_config_def demo_config_def default_config_record_def)
  have w: "enable_http_server windows_config" "os_choice windows_config = ''windows''"
    by (simp_all add: windows_config_def demo_config_def default_config_record_def)
  have t: "title ''windows'' = ''Windows''"
    by code_simp
  have U: "sublist ''apt-get install -y apache2'' (generate_startup_script demo_config)
   \<and> sublist ''systemctl start apache2'' (generate_startup_script demo_config)
   \<and> sublist ''<p>VM: demo</p>'' (generate_startup_script demo_config)"
    using generate_startup_script_http_sections[OF u(1), unfolded u, simplified] by blast
  have D: "sublist ''apt-get install -y nginx'' (generate_startup_script debian_config)"
    using generate_startup_script_http_sections[OF d(1), unfolded d, simplified] by blast
  have W: "generate_startup_script windows_config
       = script_header windows_config @ script_footer windows_config
   \<and> sublist ''=== Starting Windows VM Setup ==='' (script_header windows_config)
   \<and> sublist ''=== Windows VM Setup Complete ==='' (script_footer windows_config)"
    using generate_startup_script_http_sections[OF w(1), unfolded w t, simplified] by blast
  from U D W show ?thesis
    by blast
qed

section \<open>The poller\<close>

declare wait_loop.simps [simp del]

lemma fetch_operation_named:
  assumes "op_name operation = Some n"
  shows "fetch_operation operation m =
    zone_operations_client_get (project_id (config m)) (get_zone (config m)) n m"
  using assms by (simp add: fetch_operation_def hasattr_name_def getattr_name_def)

lemma fetch_operation_unnamed:
  assumes "op_name operation = None"
  shows "fetch_operation operation m = (Raise (AttributeError ''name''), m)"
  using assms by (simp add: fetch_operation_def hasattr_name_def getattr_name_def)

lemma wait_loop_scripted:
  assumes n: "op_name operation = Some n"
    and d: "status d = DONE"
  shows "\<forall>r\<in>set pre. status r \<noteq> DONE \<Longrightarrow>
    zone_operations_script m = map Inr pre @ Inr d # rest \<Longrightarrow>
    wait_loop operation t m =
      (Return (error d = None),
       m\<lparr>zone_operations_script := rest,
         trace := trace m
           @ concat (map (\<lambda>r.
               [Call (ZoneOperationsGet (project_id (config m)) (get_zone (config m)) n),
                Print (''[INFO] '' @ t @ '' in progress... ('' @ str_int (progress r) @ ''%)''),
                Log INFO (t @ '' in progress... ('' @ str_int (progress r) @ ''%)''),
                Sleep 2]) pre)
           @ [Call (ZoneOperationsGet (project_id (config m)) (get_zone (config m)) n)]
           @ (case error d of
                Some err \<Rightarrow> [Print (''[ERROR] '' @ t @ '' failed: '' @ err),
                             Log ERROR (t @ '' failed: '' @ err)]
              | None \<Rightarrow> [Print (''[SUCCESS] '' @ t @ '' completed successfully''),
                         Log SUCCESS (t @ '' completed successfully'')])\<rparr>)"
proof (induction pre arbitrary: m)
  case Nil
  then show ?case
    apply (subst wait_loop.simps)
    apply (simp add: fetch_operation_named[OF n] zone_operations_client_get_def emit_def d
        log_error_def log_success_def split: option.splits)
    done
next
  case (Cons r pre)
  let ?m2 = "sleep 2 (log_info (t @ '' in progress... ('' @ str_int (progress r) @ ''%)'')
      ((emit [Call (ZoneOperationsGet (project_id (config m)) (get_zone (config m)) n)] m)
         \<lparr>zone_operations_script := map Inr pre @ Inr d # rest\<rparr>))"
  have s: "zone_operations_script ?m2 = map Inr pre @ Inr d # rest"
    by (simp add: sleep_def log_info_def emit_def)
  have r: "status r \<noteq> DONE" and pre: "\<forall>r\<in>set pre. status r \<noteq> DONE"
    using Cons.prems(1) by simp_all
  have step: "wait_loop operation t m = wait_loop operation t ?m2"
    apply (subst wait_loop.simps)
    apply (simp add: fetch_operation_named[OF n] zone_operations_client_get_def Cons.prems(2) r
        emit_def)
    done
  show ?case
    unfolding step Cons.IH[OF pre s]
    by (simp add: sleep_def log_info_def emit_def)
qed

lemma wait_loop_blocked:
  assumes n: "op_name operation = Some n"
  shows "\<forall>r\<in>set pre. status r \<noteq> DONE \<Longrightarrow>
    zone_operations_script m = map Inr pre \<Longrightarrow>
    fst (wait_loop operation t m) = Blocked"
proof (induction pre arbitrary: m)
  case Nil
  then show ?case
    apply (subst wait_loop.simps)
    apply (simp add: fetch_operation_named[OF n] zone_operations_client_get_def emit_def)
    done
next
  case (Cons r pre)
  let ?m2 = "sleep 2 (log_info (t @ '' in progress... ('' @ str_int (progress r) @ ''%)'')
      ((emit [Call (ZoneOperationsGet (project_id (config m)) (get_zone (config m)) n)] m)
         \<lparr>zone_operations_script := map Inr pre\<rparr>))"
  have s: "zone_operations_script ?m2 = map Inr pre"
    by (simp add: sleep_def log_info_def emit_def)
  have r: "status r \<noteq> DONE" and pre: "\<forall>r\<in>set pre. status r \<noteq> DONE"
    using Cons.prems(1) by simp_all
  have step: "wait_loop operation t m = wait_loop operation t ?m2"
    apply (subst wait_loop.simps)
    apply (simp add: fetch_operation_named[OF n] zone_operations_client_get_def Cons.prems(2) r
        emit_def)
    done
  show ?case
    unfolding step by (rule Cons.IH[OF pre s])
qed

text \<open>
  C1. Let the zone-operations client answer the successive fetches with the observations
  \<open>pre\<close>, none of them \<open>DONE\<close>, and then with \<open>d\<close>, which is \<open>DONE\<close>. Then
  \<open>wait_for_operation\<close> returns, with \<open>True\<close> exactly when \<open>d\<close> carries no error and
  \<open>False\<close> exactly when it carries one, which it reports. It has consumed exactly these
  observations, and what it did is: the announcement; for each observation of \<open>pre\<close>, in
  order, the fetch, the report of that observation's progress, and a sleep of 2; the
  fetch that saw \<open>d\<close>; the final report. When the answers end before a \<open>DONE\<close> one, it
  has not returned: it is blocked in the next fetch.
\<close>

theorem wait_for_operation_scripted:
  assumes "op_name operation = Some n"
    and "\<forall>r\<in>set pre. status r \<noteq> DONE"
    and "status d = DONE"
  shows "wait_for_operation operation t
           (m\<lparr>zone_operations_script := map Inr pre @ Inr d # rest\<rparr>) =
      (Return (error d = None),
       m\<lparr>zone_operations_script := rest,
         trace := trace m
           @ [Print (''[INFO] Waiting for '' @ t @ '' to complete...''),
              Log INFO (''Waiting for '' @ t @ '' to complete...'')]
           @ concat (map (\<lambda>r.
               [Call (ZoneOperationsGet (project_id (config m)) (get_zone (config m)) n),
                Print (''[INFO] '' @ t @ '' in progress... ('' @ str_int (progress r) @ ''%)''),
                Log INFO (t @ '' in progress... ('' @ str_int (progress r) @ ''%)''),
                Sleep 2]) pre)
           @ [Call (ZoneOperationsGet (project_id (config m)) (get_zone (config m)) n)]
           @ (case error d of
                Some err \<Rightarrow> [Print (''[ERROR] '' @ t @ '' failed: '' @ err),
                             Log ERROR (t @ '' failed: '' @ err)]
              | None \<Rightarrow> [Print (''[SUCCESS] '' @ t @ '' completed successfully''),
                         Log SUCCESS (t @ '' completed successfully'')])\<rparr>)
    \<and> fst (wait_for_operation operation t (m\<lparr>zone_operations_script := map Inr pre\<rparr>)) = Blocked"
proof -
  let ?m1 = "log_info (''Waiting for '' @ t @ '' to complete...'')
      (m\<lparr>zone_operations_script := map Inr pre @ Inr d # rest\<rparr>)"
  have s1: "zone_operations_script ?m1 = map Inr pre @ Inr d # rest"
    by (simp add: log_info_def emit_def)
  let ?m2 = "log_info (''Waiting for '' @ t @ '' to complete...'')
      (m\<lparr>zone_operations_script := map Inr pre\<rparr>)"
  have s2: "zone_operations_script ?m2 = map Inr pre"
    by (simp add: log_info_def emit_def)
  have "fst (wait_for_operation operation t (m\<lparr>zone_operations_script := map Inr pre\<rparr>)) = Blocked"
    unfolding wait_for_operation_def
    by (rule wait_loop_blocked[OF assms(1) assms(2) s2])
  moreover have "wait_for_operation operation t
           (m\<lparr>zone_operations_script := map Inr pre @ Inr d # rest\<rparr>) =
      (Return (error d = None),
       m\<lparr>zone_operations_script := rest,
         trace := trace m
           @ [Print (''[INFO] Waiting for '' @ t @ '' to complete...''),
              Log INFO (''Waiting for '' @ t @ '' to complete...'')]
           @ concat (map (\<lambda>r.
               [Call (ZoneOperationsGet (project_id (config m)) (get_zone (config m)) n),
                Print (''[INFO] '' @ t @ '' in progress... ('' @ str_int (progress r) @ ''%)''),
                Log INFO (t @ '' in progress... ('' @ str_int (progress r) @ ''%)''),
                Sleep 2]) pre)
           @ [Call (ZoneOperationsGet (project_id (config m)) (get_zone (config m)) n)]
           @ (case error d of
                Some err \<Rightarrow> [Print (''[ERROR] '' @ t @ '' failed: '' @ err),
                             Log ERROR (t @ '' failed: '' @ err)]
              | None \<Rightarrow> [Print (''[SUCCESS] '' @ t @ '' completed successfully''),
                         Log SUCCESS (t @ '' completed successfully'')])\<rparr>)"
    unfolding wait_for_operation_def
      wait_loop_scripted[OF assms(1) assms(3) assms(2) s1]
    by (simp add: log_info_def emit_def)
  ultimately show ?thesis by simp
qed

theorem wait_for_operation_scripted_witness:
  "fst (wait_for_operation zone_op ''instance start''
         (idle_manager\<lparr>zone_operations_script := [Inr obs_pending, Inr obs_running, Inr obs_done]\<rparr>))
     = Return True
   \<and> fst (wait_for_operation zone_op ''instance start''
         (idle_manager\<lparr>zone_operations_script := [Inr obs_pending, Inr obs_running, Inr obs_failed]\<rparr>))
     = Return False
   \<and> fst (wait_for_operation zone_op ''instance start''
         (idle_manager\<lparr>zone_operations_script := [Inr obs_pending, Inr obs_running]\<rparr>))
     = Blocked"
proof -
  have n: "op_name zone_op = Some ''operation-1''"
    by (simp add: zone_op_def)
  have pre: "\<forall>r\<in>set [obs_pending, obs_running]. status r \<noteq> DONE"
    by (simp add: obs_pending_def obs_running_def)
  have d: "status obs_done = DONE" "error obs_done = None"
    by (simp_all add: obs_done_def)
  have f: "status obs_failed = DONE" "error obs_failed = Some ''QUOTA_EXCEEDED''"
    by (simp_all add: obs_failed_def)
  show ?thesis
    using wait_for_operation_scripted[OF n pre d(1), where t = "''instance start''"
        and m = idle_manager and rest = "[]"]
      wait_for_operation_scripted[OF n pre f(1), where t = "''instance start''"
        and m = idle_manager and rest = "[]"]
    by (simp add: d f)
qed

text \<open>
  C2. The handle that \<open>firewalls_client.insert\<close> returns is global-scoped and has a
  name. \<open>wait_for_operation\<close> tests the handle for an attribute \<open>name\<close> only, so it
  fetches the status of this operation from the zone-operations client; the answer that
  the global-operations client holds is never asked for.
\<close>

theorem wait_for_operation_global_handle_polled_by_zone_client:
  "op_scope global_op = GlobalScoped
   \<and> wait_for_operation global_op ''firewall rule creation''
        (idle_manager\<lparr>zone_operations_script := [Inr obs_failed],
                       global_operations_script := [Inr obs_done]\<rparr>) =
      (Return False,
       idle_manager\<lparr>zone_operations_script := [],
         global_operations_script := [Inr obs_done],
         trace :=
           [Print ''[INFO] Waiting for firewall rule creation to complete...'',
            Log INFO ''Waiting for firewall rule creation to complete...'',
            Call (ZoneOperationsGet ''your-gcp-project-id'' ''us-central1-a'' ''operation-2''),
            Print ''[ERROR] firewall rule creation failed: QUOTA_EXCEEDED'',
            Log ERROR ''firewall rule creation failed: QUOTA_EXCEEDED'']\<rparr>)"
proof -
  have n: "op_name global_op = Some ''operation-2''"
    by (simp add: global_op_def)
  have d: "status obs_failed = DONE"
    by (simp add: obs_failed_def)
  let ?m = "log_info (''Waiting for '' @ ''firewall rule creation'' @ '' to complete...'')
     (idle_manager\<lparr>zone_operations_script := [Inr obs_failed],
                    global_operations_script := [Inr obs_done]\<rparr>)"
  have s: "zone_operations_script ?m = map Inr [] @ Inr obs_failed # []"
    by (simp add: log_info_def emit_def)
  have "\<forall>r\<in>set ([] :: operation_result list). status r \<noteq> DONE"
    by simp
  note loop = wait_loop_scripted[OF n d this s, of "''firewall rule creation''"]
  show ?thesis
    unfolding wait_for_operation_def loop
    by (simp add: global_op_def obs_failed_def log_info_def emit_def idle_manager_def
        demo_config_def default_config_record_def get_zone_def)
qed

section \<open>Loading the configuration\<close>

lemma merge_defaults_dict:
  "\<exists>kvs'. merge_defaults items (JObj kvs) = Inr (JObj kvs')
     \<and> (\<forall>k. map_of kvs' k = (case map_of kvs k of Some v \<Rightarrow> Some v | None \<Rightarrow> map_of items k))"
proof (induction items arbitrary: kvs)
  case Nil
  then show ?case by (auto split: option.splits)
next
  case (Cons item items)
  obtain key v where item: "item = (key, v)" by (cases item)
  show ?case
  proof (cases "key \<in> set (map fst kvs)")
    case True
    then have present: "map_of kvs key \<noteq> None"
      by (simp add: map_of_eq_None_iff)
    from Cons.IH[of kvs] obtain kvs' where
      m: "merge_defaults items (JObj kvs) = Inr (JObj kvs')"
      and l: "\<forall>k. map_of kvs' k = (case map_of kvs k of Some v \<Rightarrow> Some v | None \<Rightarrow> map_of items k)"
      by blast
    have "merge_defaults (item # items) (JObj kvs) = Inr (JObj kvs')"
      using True m by (simp add: item)
    moreover have "map_of kvs' k =
        (case map_of kvs k of Some v \<Rightarrow> Some v | None \<Rightarrow> map_of (item # items) k)" for k
      using l present by (auto simp: item split: option.splits)
    ultimately show ?thesis by blast
  next
    case False
    then have absent: "map_of kvs key = None"
      by (simp add: map_of_eq_None_iff)
    from Cons.IH[of "AList.update key v kvs"] obtain kvs' where
      m: "merge_defaults items (JObj (AList.update key v kvs)) = Inr (JObj kvs')"
      and l: "\<forall>k. map_of kvs' k =
          (case map_of (AList.update key v kvs) k of Some v \<Rightarrow> Some v | None \<Rightarrow> map_of items k)"
      by blast
    have "merge_defaults (item # items) (JObj kvs) = Inr (JObj kvs')"
      using False m by (simp add: item)
    moreover have "map_of kvs' k =
        (case map_of kvs k of Some v \<Rightarrow> Some v | None \<Rightarrow> map_of (item # items) k)" for k
      using l absent by (auto simp: item update_conv' split: option.splits)
    ultimately show ?thesis by blast
  qed
qed

text \<open>
  What holds of \<open>load_config\<close> whatever the state of the logger: a document that is a
  dictionary is returned with every default key, the value of the document where it has
  the key and the default where it has not, and with its other keys kept.
\<close>

lemma load_config_merges_dictionary:
  assumes "disk_file b = Present (Inr (JObj kvs))"
  shows "\<exists>kvs'. load_config b = (Return (JObj kvs'), b)
     \<and> (\<forall>k. map_of kvs' k =
           (case map_of kvs k of Some v \<Rightarrow> Some v | None \<Rightarrow> map_of default_config k))"
proof -
  from merge_defaults_dict[of default_config kvs] obtain kvs' where
    m: "merge_defaults default_config (JObj kvs) = Inr (JObj kvs')"
    and l: "\<forall>k. map_of kvs' k =
        (case map_of kvs k of Some v \<Rightarrow> Some v | None \<Rightarrow> map_of default_config k)"
    by blast
  have "load_config b = (Return (JObj kvs'), b)"
    using assms m by (simp add: load_config_def)
  with l show ?thesis by blast
qed

text \<open>With the logger in place, the other two branches return the defaults.\<close>

lemma load_config_with_logger:
  assumes "logger b"
  shows "disk_file b = Missing \<Longrightarrow> create_error b = None \<Longrightarrow>
      fst (load_config b) = Return (JObj default_config)
      \<and> disk_file (snd (load_config b)) = Present (Inr (JObj default_config))"
    and "disk_file b = Present (Inl e) \<Longrightarrow>
      fst (load_config b) = Return (JObj default_config)
      \<and> Log ERROR (''Error loading config: '' @ str_exn e) \<in> set (out (snd (load_config b)))"
  using assms by (simp_all add: load_config_def boot_log_def Let_def)

text \<open>
  C6. \<open>__init__\<close> calls \<open>load_config\<close> before \<open>setup_logging\<close>. When the file is
  missing, the file is created with the defaults and the message is printed, and then
  \<open>log_info\<close> reads \<open>self.logger\<close>, which is not set: \<open>AttributeError\<close> leaves
  \<open>load_config\<close> and the constructor, and the defaults are not returned. When the file
  does not parse, \<open>log_error\<close> in the handler raises in the same way.
\<close>

theorem VMManager_init_raises_without_logger:
  "VMManager_init ''vm_config.json'' Missing None =
     (Raise (AttributeError ''logger''),
      \<lparr> boot_config_file = ''vm_config.json'',
        disk_file = Present (Inr (JObj default_config)),
        logger = False,
        create_error = None,
        out = [Print ''[INFO] Created default config file: vm_config.json''] \<rparr>)
   \<and> VMManager_init ''vm_config.json'' (Present (Inl (ValueError ''Expecting value''))) None =
     (Raise (AttributeError ''logger''),
      \<lparr> boot_config_file = ''vm_config.json'',
        disk_file = Present (Inl (ValueError ''Expecting value'')),
        logger = False,
        create_error = None,
        out = [Print ''[ERROR] Error loading config: Expecting value''] \<rparr>)"
  by (simp add: VMManager_init_def load_config_def boot_log_def Let_def)

section \<open>The lifecycle operations on a scripted provider\<close>

lemma requests_of_append [simp]: "requests_of (xs @ ys) = requests_of xs @ requests_of ys"
  by (induction xs rule: requests_of.induct) simp_all

lemma writes_of_append [simp]: "writes_of (xs @ ys) = writes_of xs @ writes_of ys"
  by (induction xs rule: writes_of.induct) simp_all

lemma create_instance_existing:
  "create_instance (m\<lparr>instances_get_script := Inr inst # rs\<rparr>) =
     (Return True,
      log_warning (''Instance '' @ vm_name (config m) @ '' already exists'')
        ((emit [Call (InstancesGet (project_id (config m)) (get_zone (config m)) (vm_name (config m)))]
           (create_instance_banner (config m) m))\<lparr>instances_get_script := rs\<rparr>))"
  by (simp add: create_instance_def Let_def instances_client_get_def create_instance_banner_def
      log_info_def log_warning_def emit_def)

text \<open>
  C4. When the existence check is answered with an instance, \<open>create_instance\<close> returns
  \<open>True\<close>; the one request it has sent is that check, so no creation and no firewall
  request; and apart from the trace and the answer consumed, the state is as before.
  This holds from every state, so also for a second call after a first one: with the
  instance there at both calls, both return \<open>True\<close> and the two checks are all that is
  sent.
\<close>

theorem create_instance_existing_is_noop:
  "fst (create_instance (m\<lparr>instances_get_script := Inr inst # rs\<rparr>)) = Return True
   \<and> requests_of (trace (snd (create_instance (m\<lparr>instances_get_script := Inr inst # rs\<rparr>)))) =
       requests_of (trace m)
       @ [InstancesGet (project_id (config m)) (get_zone (config m)) (vm_name (config m))]
   \<and> (snd (create_instance (m\<lparr>instances_get_script := Inr inst # rs\<rparr>)))\<lparr>trace := trace m\<rparr> =
       m\<lparr>instances_get_script := rs\<rparr>
   \<and> fst (create_instance (snd (create_instance
         (m\<lparr>instances_get_script := Inr inst # Inr inst' # rs\<rparr>)))) = Return True
   \<and> requests_of (trace (snd (create_instance (snd (create_instance
         (m\<lparr>instances_get_script := Inr inst # Inr inst' # rs\<rparr>)))))) =
       requests_of (trace m)
       @ [InstancesGet (project_id (config m)) (get_zone (config m)) (vm_name (config m)),
          InstancesGet (project_id (config m)) (get_zone (config m)) (vm_name (config m))]"
proof -
  let ?get = "InstancesGet (project_id (config m)) (get_zone (config m)) (vm_name (config m))"
  have one: "fst (create_instance (m\<lparr>instances_get_script := Inr inst # rs\<rparr>)) = Return True
     \<and> requests_of (trace (snd (create_instance (m\<lparr>instances_get_script := Inr inst # rs\<rparr>)))) =
         requests_of (trace m)
         @ [InstancesGet (project_id (config m)) (get_zone (config m)) (vm_name (config m))]
     \<and> (snd (create_instance (m\<lparr>instances_get_script := Inr inst # rs\<rparr>)))\<lparr>trace := trace m\<rparr> =
         m\<lparr>instances_get_script := rs\<rparr>" for m inst rs
    unfolding create_instance_existing
    by (simp add: create_instance_banner_def Let_def log_info_def log_warning_def emit_def)
  let ?m1 = "snd (create_instance (m\<lparr>instances_get_script := Inr inst # Inr inst' # rs\<rparr>))"
  have m1: "?m1 = (?m1\<lparr>trace := trace m\<rparr>)\<lparr>trace := trace ?m1\<rparr>"
    by simp
  have shape: "?m1 = (m\<lparr>trace := trace ?m1\<rparr>)\<lparr>instances_get_script := Inr inst' # rs\<rparr>"
    using one[where m = m and inst = inst and rs = "Inr inst' # rs"] by (subst m1) simp
  have c: "config (m\<lparr>trace := trace ?m1\<rparr>) = config m"
    by simp
  have two: "fst (create_instance ?m1) = Return True
     \<and> requests_of (trace (snd (create_instance ?m1))) = requests_of (trace ?m1) @ [?get]"
    by (subst (1 2) shape) (use one[where m = "m\<lparr>trace := trace ?m1\<rparr>" and inst = inst' and rs = rs] in simp)
  show ?thesis
    using one[where m = m and inst = inst and rs = rs] one[where m = m and inst = inst and rs = "Inr inst' # rs"] two by simp
qed

lemma requests_of_polls:
  "requests_of (concat (map (\<lambda>r. [Call q, Print (f r), Log INFO (g r), Sleep 2]) pre)) =
     replicate (length pre) q"
  by (induction pre) simp_all

lemma writes_of_polls:
  "writes_of (concat (map (\<lambda>r. [Call q, Print (f r), Log INFO (g r), Sleep 2]) pre)) = []"
  by (induction pre) simp_all

text \<open>What is seen of a wait that ends on a \<open>DONE\<close> answer.\<close>

lemma wait_for_operation_done:
  assumes n: "op_name operation = Some n"
    and pre: "\<forall>r\<in>set pre. status r \<noteq> DONE"
    and d: "status d = DONE"
    and s: "zone_operations_script m = map Inr pre @ Inr d # rest"
  shows "\<exists>es. wait_for_operation operation t m =
        (Return (error d = None), m\<lparr>zone_operations_script := rest, trace := trace m @ es\<rparr>)
      \<and> requests_of es = replicate (Suc (length pre))
            (ZoneOperationsGet (project_id (config m)) (get_zone (config m)) n)
      \<and> writes_of es = []"
proof -
  let ?m1 = "log_info (''Waiting for '' @ t @ '' to complete...'') m"
  have s1: "zone_operations_script ?m1 = map Inr pre @ Inr d # rest"
    using s by (simp add: log_info_def emit_def)
  let ?q = "ZoneOperationsGet (project_id (config m)) (get_zone (config m)) n"
  let ?es = "[Print (''[INFO] Waiting for '' @ t @ '' to complete...''),
              Log INFO (''Waiting for '' @ t @ '' to complete...'')]
           @ concat (map (\<lambda>r.
               [Call ?q,
                Print (''[INFO] '' @ t @ '' in progress... ('' @ str_int (progress r) @ ''%)''),
                Log INFO (t @ '' in progress... ('' @ str_int (progress r) @ ''%)''),
                Sleep 2]) pre)
           @ [Call ?q]
           @ (case error d of
                Some err \<Rightarrow> [Print (''[ERROR] '' @ t @ '' failed: '' @ err),
                             Log ERROR (t @ '' failed: '' @ err)]
              | None \<Rightarrow> [Print (''[SUCCESS] '' @ t @ '' completed successfully''),
                         Log SUCCESS (t @ '' completed successfully'')])"
  have "wait_for_operation operation t m =
      (Return (error d = None), m\<lparr>zone_operations_script := rest, trace := trace m @ ?es\<rparr>)"
    unfolding wait_for_operation_def wait_loop_scripted[OF n d pre s1]
    by (simp add: log_info_def emit_def)
  moreover have "requests_of ?es = replicate (Suc (length pre)) ?q"
    by (simp add: requests_of_polls replicate_append_same split: option.splits)
  moreover have "writes_of ?es = []"
    by (simp add: writes_of_polls split: option.splits)
  ultimately show ?thesis by blast
qed

lemma stop_instance_already_stopped:
  assumes "inst_status inst = ''TERMINATED'' \<or> inst_status inst = ''STOPPED''"
  shows "stop_instance (m\<lparr>instances_get_script := Inr inst # rs\<rparr>) =
     (Return True,
      m\<lparr>instances_get_script := rs,
        trace := trace m @
          [Call (InstancesGet (project_id (config m)) (get_zone (config m)) (vm_name (config m))),
           Print (''[WARNING] Instance '' @ vm_name (config m) @ '' is already stopped''),
           Log WARNING (''Instance '' @ vm_name (config m) @ '' is already stopped'')]\<rparr>)"
  using assms
  by (auto simp: stop_instance_def Let_def get_instance_status_def instances_client_get_def
      log_warning_def emit_def)

lemma stop_instance_not_found:
  "stop_instance (m\<lparr>instances_get_script := Inl e # rs\<rparr>) =
     (Return False,
      m\<lparr>instances_get_script := rs,
        trace := trace m @
          [Call (InstancesGet (project_id (config m)) (get_zone (config m)) (vm_name (config m))),
           Print (''[ERROR] Failed to get instance status: '' @ str_exn e),
           Log ERROR (''Failed to get instance status: '' @ str_exn e),
           Print (''[ERROR] Instance '' @ vm_name (config m) @ '' not found''),
           Log ERROR (''Instance '' @ vm_name (config m) @ '' not found'')]\<rparr>)"
  by (simp add: stop_instance_def Let_def get_instance_status_def instances_client_get_def
      log_error_def emit_def)

lemma stop_instance_stops:
  assumes n: "op_name operation = Some n"
    and pre: "\<forall>r\<in>set pre. status r \<noteq> DONE"
    and d: "status d = DONE" "error d = None"
    and st: "inst_status inst \<noteq> ''TERMINATED''" "inst_status inst \<noteq> ''STOPPED''"
    and s1: "instances_get_script m = Inr inst # rs"
    and s2: "instances_mutate_script m = Inr operation # os"
    and s3: "zone_operations_script m = map Inr pre @ Inr d # rest"
  shows "fst (stop_instance m) = Return True
    \<and> requests_of (trace (snd (stop_instance m))) =
        requests_of (trace m)
        @ [InstancesGet (project_id (config m)) (get_zone (config m)) (vm_name (config m)),
           InstancesStop (project_id (config m)) (get_zone (config m)) (vm_name (config m))]
        @ replicate (Suc (length pre))
            (ZoneOperationsGet (project_id (config m)) (get_zone (config m)) n)
    \<and> config (snd (stop_instance m)) = (config m)\<lparr>instance_state := ''TERMINATED''\<rparr>
    \<and> disk (snd (stop_instance m)) =
        (if write_error m = None then Some ((config m)\<lparr>instance_state := ''TERMINATED''\<rparr>)
         else disk m)
    \<and> writes_of (trace (snd (stop_instance m))) =
        writes_of (trace m)
        @ (if write_error m = None then [(config m)\<lparr>instance_state := ''TERMINATED''\<rparr>] else [])"
proof -
  let ?p = "project_id (config m)" and ?z = "get_zone (config m)" and ?name = "vm_name (config m)"
  let ?m1 = "(emit [Call (InstancesGet ?p ?z ?name)] m)\<lparr>instances_get_script := rs\<rparr>"
  have g: "get_instance_status m = (Return (Some (inst_status inst)), ?m1)"
    by (simp add: get_instance_status_def instances_client_get_def s1 emit_def)
  let ?m2 = "log_info (''Stopping instance '' @ ?name @ ''...'') ?m1"
  let ?m3 = "(emit [Call (InstancesStop ?p ?z ?name)] ?m2)\<lparr>instances_mutate_script := os\<rparr>"
  have mu: "instances_client_mutate (InstancesStop (project_id (config ?m2)) ?z ?name) ?m2
      = (Return operation, ?m3)"
    by (simp add: instances_client_mutate_def s2 emit_def log_info_def)
  have z3: "zone_operations_script ?m3 = map Inr pre @ Inr d # rest"
    by (simp add: s3 emit_def log_info_def)
  from wait_for_operation_done[OF n pre d(1) z3, of "''instance stop''"] obtain es where
    w: "wait_for_operation operation ''instance stop'' ?m3 =
        (Return (error d = None), ?m3\<lparr>zone_operations_script := rest, trace := trace ?m3 @ es\<rparr>)"
    and rq: "requests_of es = replicate (Suc (length pre))
            (ZoneOperationsGet (project_id (config ?m3)) (get_zone (config ?m3)) n)"
    and wr: "writes_of es = []"
    by blast
  have c3: "config ?m3 = config m"
    by (simp add: emit_def log_info_def)
  let ?m4 = "log_success (''Instance '' @ ?name @ '' stopped successfully!'')
           (?m3\<lparr>zone_operations_script := rest, trace := trace ?m3 @ es\<rparr>)"
  have c4: "config ?m4 = config m"
    by (simp add: emit_def log_info_def log_success_def)
  have "stop_instance_try ?name ?z ?m2 =
     (Return True,
      save_config (?m4\<lparr>config := (config ?m4)\<lparr>instance_state := ''TERMINATED''\<rparr>\<rparr>))"
    unfolding stop_instance_try_def and_then_def
    apply (simp only: mu w d(2) prod.case outcome.case Let_def)
    apply simp
    done
  then have t: "stop_instance_try ?name ?z ?m2 =
     (Return True,
      save_config (?m4\<lparr>config := (config m)\<lparr>instance_state := ''TERMINATED''\<rparr>\<rparr>))"
    unfolding c4 .
  have r: "stop_instance m =
     (Return True,
      save_config (?m4\<lparr>config := (config m)\<lparr>instance_state := ''TERMINATED''\<rparr>\<rparr>))"
    unfolding stop_instance_def Let_def g try_except_def
    apply (simp only: prod.case outcome.case t)
    using st apply simp
    done
  show ?thesis
    unfolding r using rq wr c3
    by (simp add: save_config_def log_success_def log_error_def log_info_def emit_def
        split: option.splits)
qed

section \<open>The lifecycle operations on any provider\<close>

lemma untouched_refl [simp]: "untouched m m"
  by (simp add: untouched_def)

lemma untouched_trans: "untouched m m1 \<Longrightarrow> untouched m1 m2 \<Longrightarrow> untouched m m2"
  by (simp add: untouched_def)

lemma untouched_log [simp]:
  "untouched m (log_info s m')  = untouched m m'"
  "untouched m (log_success s m') = untouched m m'"
  "untouched m (log_warning s m') = untouched m m'"
  "untouched m (log_error s m') = untouched m m'"
  "untouched m (sleep k m') = untouched m m'"
  by (simp_all add: untouched_def log_info_def log_success_def log_warning_def log_error_def
      sleep_def emit_def)

lemma trace_log [simp]:
  "trace (log_info s m) = trace m @ [Print (''[INFO] '' @ s), Log INFO s]"
  "trace (log_success s m) = trace m @ [Print (''[SUCCESS] '' @ s), Log SUCCESS s]"
  "trace (log_warning s m) = trace m @ [Print (''[WARNING] '' @ s), Log WARNING s]"
  "trace (log_error s m) = trace m @ [Print (''[ERROR] '' @ s), Log ERROR s]"
  "trace (sleep k m) = trace m @ [Sleep k]"
  by (simp_all add: log_info_def log_success_def log_warning_def log_error_def sleep_def emit_def)

lemma config_log [simp]:
  "config (log_info s m) = config m"
  "config (log_success s m) = config m"
  "config (log_warning s m) = config m"
  "config (log_error s m) = config m"
  "config (sleep k m) = config m"
  by (simp_all add: log_info_def log_success_def log_warning_def log_error_def sleep_def emit_def)

lemma starved_log [simp]:
  "starved (log_info s m) = starved m"
  "starved (log_success s m) = starved m"
  "starved (log_warning s m) = starved m"
  "starved (log_error s m) = starved m"
  "starved (sleep k m) = starved m"
  by (simp_all add: starved_def log_info_def log_success_def log_warning_def log_error_def
      sleep_def emit_def)

lemma emit_simps [simp]:
  "trace (emit es m) = trace m @ es"
  "config (emit es m) = config m"
  "starved (emit es m) = starved m"
  "writes_of es = [] \<Longrightarrow> untouched m (emit es m') = untouched m m'"
  by (simp_all add: emit_def starved_def untouched_def)

lemma quiet_step_trans:
  assumes "quiet_step m (Return a, m1)" and "quiet_step m1 res"
  shows "quiet_step m res"
  using assms unfolding quiet_step_def
  by (auto intro: untouched_trans prefix_order.trans)

lemma quiet_step_after_log:
  "quiet_step (log_info s m) res \<Longrightarrow> quiet_step m res"
  "quiet_step (log_warning s m) res \<Longrightarrow> quiet_step m res"
  unfolding quiet_step_def
  by (auto simp: untouched_def log_info_def log_warning_def emit_def prefix_def)

lemma answer_not_blocked [simp]: "answer x \<noteq> Blocked" "Blocked \<noteq> answer x"
  by (cases x; simp)+

lemma quiet_instances_client_get: "quiet_step m (instances_client_get p z i m)"
  by (auto simp: quiet_step_def instances_client_get_def Let_def emit_def untouched_def
      starved_def split: list.splits sum.splits)

lemma quiet_instances_client_mutate: "quiet_step m (instances_client_mutate req m)"
  by (auto simp: quiet_step_def instances_client_mutate_def Let_def emit_def untouched_def
      starved_def split: list.splits sum.splits)



lemma quiet_fetch_operation: "quiet_step m (fetch_operation operation m)"
  by (auto simp: quiet_step_def fetch_operation_def zone_operations_client_get_def
      operations_client_get_def getattr_name_def hasattr_name_def Let_def emit_def untouched_def
      starved_def split: list.splits sum.splits option.splits)

lemma quiet_wait_loop: "quiet_step m (wait_loop operation t m)"
proof (induction operation t m rule: wait_loop.induct)
  case (1 operation t m)
  obtain r m1 where f: "fetch_operation operation m = (r, m1)"
    by (cases "fetch_operation operation m")
  have q: "quiet_step m (r, m1)"
    using quiet_fetch_operation[of m operation] f by simp
  show ?case
  proof (cases r)
    case (Return result)
    show ?thesis
    proof (cases "status result = DONE")
      case True
      then show ?thesis
        using q Return f
        by (subst wait_loop.simps) (auto simp: quiet_step_def prefix_def split: option.splits)
    next
      case False
      let ?m2 = "sleep 2 (log_info (t @ '' in progress... ('' @ str_int (progress result) @ ''%)'') m1)"
      have ih: "quiet_step ?m2 (wait_loop operation t ?m2)"
        using "1.IH"[OF f[symmetric] Return False] .
      have "quiet_step m (Return result, ?m2)"
        using q Return by (auto simp: quiet_step_def prefix_def)
      then have "quiet_step m (wait_loop operation t ?m2)"
        using ih by (rule quiet_step_trans)
      then show ?thesis
        using Return f False by (subst wait_loop.simps) simp
    qed
  next
    case (Raise e)
    then show ?thesis
      using q f by (subst wait_loop.simps) (simp add: quiet_step_def)
  next
    case Blocked
    then show ?thesis
      using q f by (subst wait_loop.simps) (simp add: quiet_step_def)
  qed
qed

lemma quiet_wait_for_operation: "quiet_step m (wait_for_operation operation t m)"
  unfolding wait_for_operation_def
  by (rule quiet_step_after_log) (rule quiet_wait_loop)

lemma quiet_get_instance_status: "quiet_step m (get_instance_status m)"
proof -
  obtain r m1 where g:
    "instances_client_get (project_id (config m)) (get_zone (config m)) (vm_name (config m)) m = (r, m1)"
    by (cases "instances_client_get (project_id (config m)) (get_zone (config m)) (vm_name (config m)) m")
  have "quiet_step m (r, m1)"
    using quiet_instances_client_get[of m "project_id (config m)" "get_zone (config m)"
        "vm_name (config m)"] g by simp
  then show ?thesis
    by (cases r) (simp_all add: get_instance_status_def g quiet_step_def)
qed

lemma writes_of_access_info_lines [simp]: "writes_of (access_info_lines cfg inst) = []"
  by (simp add: access_info_lines_def split: list.splits)

lemma quiet_show_access_info: "quiet_step m (show_access_info m)"
proof -
  obtain r m1 where g:
    "instances_client_get (project_id (config m)) (get_zone (config m)) (vm_name (config m)) m = (r, m1)"
    by (cases "instances_client_get (project_id (config m)) (get_zone (config m)) (vm_name (config m)) m")
  have "quiet_step m (r, m1)"
    using quiet_instances_client_get[of m "project_id (config m)" "get_zone (config m)"
        "vm_name (config m)"] g by simp
  then show ?thesis
    by (cases r) (simp_all add: show_access_info_def g quiet_step_def)
qed

lemma wait_loop_true:
  "wait_loop operation t m = (Return True, m') \<Longrightarrow>
     \<exists>es. trace m' = trace m @ es @ [Log SUCCESS (t @ '' completed successfully'')]"
proof (induction operation t m rule: wait_loop.induct)
  case (1 operation t m)
  obtain r m1 where f: "fetch_operation operation m = (r, m1)"
    by (cases "fetch_operation operation m")
  have "prefix (trace m) (trace m1)"
    using quiet_fetch_operation[of m operation] f by (simp add: quiet_step_def)
  then obtain es1 where e1: "trace m1 = trace m @ es1"
    by (auto simp: prefix_def)
  show ?case
  proof (cases r)
    case (Return result)
    show ?thesis
    proof (cases "status result = DONE")
      case True
      with "1.prems" f Return e1 show ?thesis
        by (subst (asm) wait_loop.simps) (auto split: option.splits)
    next
      case False
      let ?m2 = "sleep 2 (log_info (t @ '' in progress... ('' @ str_int (progress result) @ ''%)'') m1)"
      have "wait_loop operation t ?m2 = (Return True, m')"
        using "1.prems" f Return False by (subst (asm) wait_loop.simps) simp
      from "1.IH"[OF f[symmetric] Return False this] obtain es where
        "trace m' = trace ?m2 @ es @ [Log SUCCESS (t @ '' completed successfully'')]"
        by blast
      then show ?thesis
        using e1 by simp
    qed
  next
    case (Raise e)
    with "1.prems" f show ?thesis
      by (subst (asm) wait_loop.simps) simp
  next
    case Blocked
    with "1.prems" f show ?thesis
      by (subst (asm) wait_loop.simps) simp
  qed
qed

lemma wait_for_operation_true:
  assumes "wait_for_operation operation t m = (Return True, m')"
  shows "\<exists>es. trace m' = trace m @ es @ [Log SUCCESS (t @ '' completed successfully'')]
     \<and> writes_of es = []"
proof -
  from assms obtain es0 where
    "trace m' = trace (log_info (''Waiting for '' @ t @ '' to complete...'') m) @ es0
       @ [Log SUCCESS (t @ '' completed successfully'')]"
    unfolding wait_for_operation_def by (auto dest: wait_loop_true)
  then have t: "trace m' = trace m
      @ ([Print (''[INFO] Waiting for '' @ t @ '' to complete...''),
          Log INFO (''Waiting for '' @ t @ '' to complete...'')] @ es0)
      @ [Log SUCCESS (t @ '' completed successfully'')]"
    by simp
  have "writes_of (trace m') = writes_of (trace m)"
    using quiet_wait_for_operation[of m operation t] assms by (simp add: quiet_step_def untouched_def)
  with t have "writes_of ([Print (''[INFO] Waiting for '' @ t @ '' to complete...''),
          Log INFO (''Waiting for '' @ t @ '' to complete...'')] @ es0) = []"
    by simp
  with t show ?thesis by blast
qed

lemma written_only_after_quiet:
  "writes_of es = [] \<Longrightarrow> written_only_after ev es"
proof (induction es)
  case Nil
  then show ?case by (simp add: written_only_after_def)
next
  case (Cons a es)
  then show ?case
    by (cases a) (auto simp: written_only_after_def)
qed

lemma written_only_after_append:
  assumes "writes_of es = []"
  shows "written_only_after ev (es @ ev # es')"
  using assms
proof (induction es)
  case Nil
  then show ?case by (simp add: written_only_after_def)
next
  case (Cons a es)
  then show ?case
    by (cases a) (auto simp: written_only_after_def)
qed

lemma new_events_append: "trace m' = trace m @ es \<Longrightarrow> new_events m m' = es"
  by (simp add: new_events_def)

lemma quiet_new_events:
  assumes "quiet_step m (r, m')"
  shows "trace m' = trace m @ new_events m m' \<and> writes_of (new_events m m') = []"
proof -
  from assms obtain es where e: "trace m' = trace m @ es"
    by (auto simp: quiet_step_def prefix_def)
  moreover have "writes_of (trace m') = writes_of (trace m)"
    using assms by (simp add: quiet_step_def untouched_def)
  ultimately show ?thesis by (simp add: new_events_def)
qed

lemma trace_save_config: "\<exists>es. trace (save_config m) = trace m @ es"
  by (simp add: save_config_def split: option.splits)

lemma starved_save_config [simp]: "starved (save_config m) = starved m"
  by (simp add: save_config_def starved_def log_success_def log_error_def emit_def
      split: option.splits)

lemma guarded_quiet:
  assumes "quiet_step m res"
  shows "guarded t m res"
proof -
  obtain r m' where res: "res = (r, m')" by (cases res)
  from quiet_new_events[OF assms[unfolded res]] have "writes_of (new_events m m') = []"
    by simp
  then have "written_only_after (Log SUCCESS (t @ '' completed successfully'')) (new_events m m')"
    by (rule written_only_after_quiet)
  moreover have u: "untouched m m'" and "prefix (trace m) (trace m')"
    and "r = Blocked \<longrightarrow> starved m'"
    using assms by (simp_all add: quiet_step_def res)
  moreover have "config m' = config m"
    using u by (simp add: untouched_def)
  ultimately show ?thesis
    by (simp add: guarded_def res)
qed

lemma written_only_after_prepend:
  assumes "writes_of es1 = []" and "written_only_after ev es"
  shows "written_only_after ev (es1 @ es)"
  using assms
proof (induction es1)
  case Nil
  then show ?case by simp
next
  case (Cons a es1)
  then show ?case
    by (cases a) (auto simp: written_only_after_def)
qed

lemma guarded_after_quiet:
  assumes q: "quiet_step m (r1, m1)" and g: "guarded t m1 res"
  shows "guarded t m res"
proof -
  let ?ev = "Log SUCCESS (t @ '' completed successfully'')"
  from quiet_new_events[OF q] obtain es1 where
    t1: "trace m1 = trace m @ es1" and w1: "writes_of es1 = []"
    by blast
  from g obtain es where t2: "trace (snd res) = trace m1 @ es"
    by (auto simp: guarded_def prefix_def)
  have n1: "new_events m1 (snd res) = es"
    using t2 by (rule new_events_append)
  have t: "trace (snd res) = trace m @ es1 @ es"
    using t1 t2 by simp
  have n: "new_events m (snd res) = es1 @ es"
    using t by (rule new_events_append)
  have u1: "untouched m m1"
    using q by (simp add: quiet_step_def)
  then have c1: "config m1 = config m"
    by (simp add: untouched_def)
  have "prefix (trace m) (trace (snd res))"
    unfolding t by simp
  moreover have "fst res = Blocked \<longrightarrow> starved (snd res)"
    using g by (simp add: guarded_def)
  moreover have "fst res \<noteq> Return True \<and> fst res \<noteq> Blocked \<longrightarrow> untouched m (snd res)"
    using g u1 by (auto simp: guarded_def intro: untouched_trans)
  moreover have "written_only_after ?ev (new_events m (snd res))"
    unfolding n using g w1 by (auto simp: guarded_def n1 intro: written_only_after_prepend)
  moreover have "config (snd res) \<noteq> config m \<longrightarrow> ?ev \<in> set (new_events m (snd res))"
    using g by (auto simp: guarded_def n n1 c1)
  ultimately show ?thesis
    by (simp add: guarded_def)
qed

text \<open>
  The shape that the \<open>try\<close> bodies share: a mutating call, the wait for its operation,
  and a continuation \<open>K\<close> that runs only when the wait has returned \<open>True\<close>.
\<close>

lemma guarded_try:
  assumes K: "\<And>m2. prefix (trace m2) (trace (snd (K m2)))
      \<and> (fst (K m2) = Blocked \<longrightarrow> starved (snd (K m2)))
      \<and> (fst (K m2) = Return True \<or> fst (K m2) = Blocked)"
  shows "guarded t m
     (and_then (\<lambda>m. instances_client_mutate (req m) m)
        (\<lambda>operation. and_then (wait_for_operation operation t)
           (\<lambda>ok m. if ok then K m else (Return False, m))) m)"
    (is "guarded t m ?res")
proof -
  let ?ev = "Log SUCCESS (t @ '' completed successfully'')"
  obtain r1 m1 where f1: "instances_client_mutate (req m) m = (r1, m1)"
    by (cases "instances_client_mutate (req m) m")
  have q1: "quiet_step m (r1, m1)"
    using quiet_instances_client_mutate[of m "req m"] f1 by simp
  show ?thesis
  proof (cases r1)
    case (Return operation)
    obtain r2 m2 where f2: "wait_for_operation operation t m1 = (r2, m2)"
      by (cases "wait_for_operation operation t m1")
    have q12: "quiet_step m1 (r2, m2)"
      using quiet_wait_for_operation[of m1 operation t] f2 by simp
    with q1 Return have q2: "quiet_step m (r2, m2)"
      by (auto intro: quiet_step_trans)
    show ?thesis
    proof (cases "r2 = Return True")
      case True
      have res: "?res = K m2"
        using f1 f2 Return True by (simp add: and_then_def)
      from f2 True obtain es where
        t2: "trace m2 = trace m1 @ es @ [?ev]" and w2: "writes_of es = []"
        by (auto dest: wait_for_operation_true)
      from quiet_new_events[OF q1] obtain es1 where
        t1: "trace m1 = trace m @ es1" and w1: "writes_of es1 = []"
        by blast
      from K[of m2] obtain es3 where t3: "trace (snd (K m2)) = trace m2 @ es3"
        by (auto simp: prefix_def)
      have t: "trace (snd (K m2)) = trace m @ (es1 @ es) @ ?ev # es3"
        using t1 t2 t3 by simp
      have n: "new_events m (snd (K m2)) = (es1 @ es) @ ?ev # es3"
        using t by (rule new_events_append)
      have "written_only_after ?ev (new_events m (snd (K m2)))"
        unfolding n by (rule written_only_after_append) (simp add: w1 w2)
      moreover have "prefix (trace m) (trace (snd (K m2)))"
        unfolding t by simp
      moreover have "?ev \<in> set (new_events m (snd (K m2)))"
        unfolding n by simp
      ultimately show ?thesis
        unfolding res using K[of m2] by (auto simp: guarded_def)
    next
      case False
      then have "?res = (r2, m2)"
        using f1 f2 Return by (cases r2) (auto simp: and_then_def)
      then show ?thesis
        using q2 by (simp add: guarded_quiet)
    qed
  next
    case (Raise e)
    then have "?res = (Raise e, m1)"
      using f1 by (simp add: and_then_def)
    moreover have "quiet_step m (Raise e :: bool outcome, m1)"
      using q1 Raise by (simp add: quiet_step_def)
    ultimately show ?thesis
      by (simp add: guarded_quiet)
  next
    case Blocked
    then have "?res = (Blocked, m1)"
      using f1 by (simp add: and_then_def)
    moreover have "quiet_step m (Blocked :: bool outcome, m1)"
      using q1 Blocked by (simp add: quiet_step_def)
    ultimately show ?thesis
      by (simp add: guarded_quiet)
  qed
qed

text \<open>\<open>try ... except Exception\<close> with a handler that reports and returns \<open>False\<close>.\<close>

lemma guarded_try_except:
  assumes "guarded t m (body m)"
  shows "guarded t m (try_except body (\<lambda>e m. (Return False, log_error (s e) m)) m)
     \<and> (\<forall>e. fst (try_except body (\<lambda>e m. (Return False, log_error (s e) m)) m) \<noteq> Raise e)"
proof -
  obtain r m' where b: "body m = (r, m')" by (cases "body m")
  show ?thesis
  proof (cases r)
    case (Return a)
    then show ?thesis
      using assms b by (simp add: try_except_def)
  next
    case Blocked
    then show ?thesis
      using assms b by (simp add: try_except_def)
  next
    case (Raise e)
    have u: "untouched m m'" and p: "prefix (trace m) (trace m')"
      using assms b Raise by (simp_all add: guarded_def)
    have "quiet_step m (Return False, log_error (s e) m')"
      using u p by (simp add: quiet_step_def)
    then have "guarded t m (Return False, log_error (s e) m')"
      by (rule guarded_quiet)
    then show ?thesis
      using b Raise by (simp add: try_except_def)
  qed
qed

lemma get_instance_status_no_raise: "fst (get_instance_status m) \<noteq> Raise e"
  by (simp add: get_instance_status_def split: prod.splits outcome.splits)

lemma show_access_info_no_raise: "fst (show_access_info m) \<noteq> Raise e"
  by (simp add: show_access_info_def split: prod.splits outcome.splits)

lemma show_access_info_then_true:
  "prefix (trace m) (trace (snd (and_then show_access_info (\<lambda>u m. (Return True, m)) m)))
   \<and> (fst (and_then show_access_info (\<lambda>u m. (Return True, m)) m) = Blocked \<longrightarrow>
        starved (snd (and_then show_access_info (\<lambda>u m. (Return True, m)) m)))
   \<and> (fst (and_then show_access_info (\<lambda>u m. (Return True, m)) m) = Return True
        \<or> fst (and_then show_access_info (\<lambda>u m. (Return True, m)) m) = Blocked)"
proof -
  obtain r m' where s: "show_access_info m = (r, m')" by (cases "show_access_info m")
  have q: "quiet_step m (r, m')"
    using quiet_show_access_info[of m] s by simp
  have nr: "\<forall>e. r \<noteq> Raise e"
    using show_access_info_no_raise[of m] s by simp
  show ?thesis
  proof (cases r)
    case (Return u)
    then show ?thesis
      using q s by (simp add: and_then_def quiet_step_def)
  next
    case (Raise e)
    with nr show ?thesis by blast
  next
    case Blocked
    then show ?thesis
      using q s by (simp add: and_then_def quiet_step_def)
  qed
qed

lemma stop_instance_try_guarded: "guarded ''instance stop'' m (stop_instance_try name z m)"
proof -
  let ?K = "\<lambda>m. (Return True,
      save_config ((log_success (''Instance '' @ name @ '' stopped successfully!'') m)
        \<lparr>config := (config (log_success (''Instance '' @ name @ '' stopped successfully!'') m))
           \<lparr>instance_state := ''TERMINATED''\<rparr>\<rparr>))"
  have K: "prefix (trace m2) (trace (snd (?K m2)))
      \<and> (fst (?K m2) = Blocked \<longrightarrow> starved (snd (?K m2)))
      \<and> (fst (?K m2) = Return True \<or> fst (?K m2) = Blocked)" for m2
  proof -
    let ?M = "(log_success (''Instance '' @ name @ '' stopped successfully!'') m2)
        \<lparr>config := (config (log_success (''Instance '' @ name @ '' stopped successfully!'') m2))
           \<lparr>instance_state := ''TERMINATED''\<rparr>\<rparr>"
    obtain es where "trace (save_config ?M) = trace ?M @ es"
      using trace_save_config by blast
    then show ?thesis
      by (simp add: log_success_def emit_def)
  qed
  have "stop_instance_try name z m =
      and_then (\<lambda>m. instances_client_mutate (InstancesStop (project_id (config m)) z name) m)
        (\<lambda>operation. and_then (wait_for_operation operation ''instance stop'')
           (\<lambda>ok m. if ok then ?K m else (Return False, m))) m"
    unfolding stop_instance_try_def Let_def by (rule refl)
  then show ?thesis
    using guarded_try[of ?K "''instance stop''" m "\<lambda>m. InstancesStop (project_id (config m)) z name", OF K]
    by simp
qed

lemma start_instance_try_guarded: "guarded ''instance start'' m (start_instance_try name z m)"
proof -
  let ?K = "\<lambda>m. and_then show_access_info (\<lambda>u m. (Return True, m))
      (sleep 5 (save_config ((log_success (''Instance '' @ name @ '' started successfully!'') m)
        \<lparr>config := (config (log_success (''Instance '' @ name @ '' started successfully!'') m))
           \<lparr>instance_state := ''RUNNING''\<rparr>\<rparr>)))"
  have K: "prefix (trace m2) (trace (snd (?K m2)))
      \<and> (fst (?K m2) = Blocked \<longrightarrow> starved (snd (?K m2)))
      \<and> (fst (?K m2) = Return True \<or> fst (?K m2) = Blocked)" for m2
  proof -
    let ?M = "(log_success (''Instance '' @ name @ '' started successfully!'') m2)
        \<lparr>config := (config (log_success (''Instance '' @ name @ '' started successfully!'') m2))
           \<lparr>instance_state := ''RUNNING''\<rparr>\<rparr>"
    obtain es where "trace (save_config ?M) = trace ?M @ es"
      using trace_save_config by blast
    then have "prefix (trace m2) (trace (sleep 5 (save_config ?M)))"
      by (simp add: log_success_def emit_def)
    with show_access_info_then_true[of "sleep 5 (save_config ?M)"] show ?thesis
      by (meson prefix_order.trans)
  qed
  have "start_instance_try name z m =
      and_then (\<lambda>m. instances_client_mutate (InstancesStart (project_id (config m)) z name) m)
        (\<lambda>operation. and_then (wait_for_operation operation ''instance start'')
           (\<lambda>ok m. if ok then ?K m else (Return False, m))) m"
    unfolding start_instance_try_def Let_def by (rule refl)
  then show ?thesis
    using guarded_try[of ?K "''instance start''" m "\<lambda>m. InstancesStart (project_id (config m)) z name", OF K]
    by simp
qed

lemma stop_instance_guarded:
  "guarded ''instance stop'' m (stop_instance m) \<and> (\<forall>e. fst (stop_instance m) \<noteq> Raise e)"
proof -
  obtain r m1 where g: "get_instance_status m = (r, m1)" by (cases "get_instance_status m")
  have q: "quiet_step m (r, m1)"
    using quiet_get_instance_status[of m] g by simp
  have nr: "r \<noteq> Raise e" for e
    using get_instance_status_no_raise[of m e] g by simp
  show ?thesis
  proof (cases r)
    case (Return st)
    let ?name = "vm_name (config m)"
    show ?thesis
    proof (cases "st = Some ''TERMINATED'' \<or> st = Some ''STOPPED''")
      case True
      have "quiet_step m (Return True, log_warning (''Instance '' @ ?name @ '' is already stopped'') m1)"
        using q Return by (simp add: quiet_step_def)
      then show ?thesis
        using True g Return by (auto simp: stop_instance_def Let_def intro: guarded_quiet)
    next
      case False
      note not_stopped = this
      show ?thesis
      proof (cases "st = None")
        case True
        have "quiet_step m (Return False, log_error (''Instance '' @ ?name @ '' not found'') m1)"
          using q Return by (simp add: quiet_step_def)
        then show ?thesis
          using True g Return by (auto simp: stop_instance_def Let_def intro: guarded_quiet)
      next
        case False
        let ?m2 = "log_info (''Stopping instance '' @ ?name @ ''...'') m1"
        let ?res = "try_except (stop_instance_try ?name (get_zone (config m)))
            (\<lambda>e m. (Return False, log_error (''Failed to stop instance: '' @ str_exn e) m)) ?m2"
        have res: "stop_instance m = ?res"
          using False not_stopped g Return by (cases st) (simp_all add: stop_instance_def Let_def)
        have q2: "quiet_step m (Return st, ?m2)"
          using q Return by (simp add: quiet_step_def)
        from guarded_try_except[where body = "stop_instance_try ?name (get_zone (config m))"
            and m = ?m2 and t = "''instance stop''"
            and s = "\<lambda>e. ''Failed to stop instance: '' @ str_exn e",
            OF stop_instance_try_guarded]
        have "guarded ''instance stop'' ?m2 ?res" and "\<forall>e. fst ?res \<noteq> Raise e"
          by blast+
        then show ?thesis
          unfolding res using guarded_after_quiet[OF q2] by blast
      qed
    qed
  next
    case (Raise e)
    then show ?thesis
      using nr[of e] by simp
  next
    case Blocked
    have "quiet_step m (Blocked :: bool outcome, m1)"
      using q Blocked by (simp add: quiet_step_def)
    then show ?thesis
      using g Blocked by (auto simp: stop_instance_def Let_def intro: guarded_quiet)
  qed
qed

lemma start_instance_guarded:
  "guarded ''instance start'' m (start_instance m) \<and> (\<forall>e. fst (start_instance m) \<noteq> Raise e)"
proof -
  obtain r m1 where g: "get_instance_status m = (r, m1)" by (cases "get_instance_status m")
  have q: "quiet_step m (r, m1)"
    using quiet_get_instance_status[of m] g by simp
  have nr: "r \<noteq> Raise e" for e
    using get_instance_status_no_raise[of m e] g by simp
  show ?thesis
  proof (cases r)
    case (Return st)
    let ?name = "vm_name (config m)"
    show ?thesis
    proof (cases "st = Some ''RUNNING''")
      case True
      have "quiet_step m (Return True, log_warning (''Instance '' @ ?name @ '' is already running'') m1)"
        using q Return by (simp add: quiet_step_def)
      then show ?thesis
        using True g Return by (auto simp: start_instance_def Let_def intro: guarded_quiet)
    next
      case False
      note not_running = this
      show ?thesis
      proof (cases "st = None")
        case True
        have "quiet_step m (Return False, log_error (''Instance '' @ ?name @ '' not found'') m1)"
          using q Return by (simp add: quiet_step_def)
        then show ?thesis
          using True g Return by (auto simp: start_instance_def Let_def intro: guarded_quiet)
      next
        case False
        let ?m2 = "log_info (''Starting instance '' @ ?name @ ''...'') m1"
        let ?res = "try_except (start_instance_try ?name (get_zone (config m)))
            (\<lambda>e m. (Return False, log_error (''Failed to start instance: '' @ str_exn e) m)) ?m2"
        have res: "start_instance m = ?res"
          using False not_running g Return by (cases st) (simp_all add: start_instance_def Let_def)
        have q2: "quiet_step m (Return st, ?m2)"
          using q Return by (simp add: quiet_step_def)
        from guarded_try_except[where body = "start_instance_try ?name (get_zone (config m))"
            and m = ?m2 and t = "''instance start''"
            and s = "\<lambda>e. ''Failed to start instance: '' @ str_exn e",
            OF start_instance_try_guarded]
        have "guarded ''instance start'' ?m2 ?res" and "\<forall>e. fst ?res \<noteq> Raise e"
          by blast+
        then show ?thesis
          unfolding res using guarded_after_quiet[OF q2] by blast
      qed
    qed
  next
    case (Raise e)
    then show ?thesis
      using nr[of e] by simp
  next
    case Blocked
    have "quiet_step m (Blocked :: bool outcome, m1)"
      using q Blocked by (simp add: quiet_step_def)
    then show ?thesis
      using g Blocked by (auto simp: start_instance_def Let_def intro: guarded_quiet)
  qed
qed

section \<open>The cases of stop_instance\<close>

lemma wait_loop_poll_raises:
  assumes n: "op_name operation = Some n"
  shows "\<forall>r\<in>set pre. status r \<noteq> DONE \<Longrightarrow>
    zone_operations_script m = map Inr pre @ Inl e # rest \<Longrightarrow>
    \<exists>es. wait_loop operation t m =
        (Raise e, m\<lparr>zone_operations_script := rest, trace := trace m @ es\<rparr>)
      \<and> requests_of es = replicate (Suc (length pre))
            (ZoneOperationsGet (project_id (config m)) (get_zone (config m)) n)
      \<and> writes_of es = []"
proof (induction pre arbitrary: m)
  case Nil
  let ?q = "ZoneOperationsGet (project_id (config m)) (get_zone (config m)) n"
  have "wait_loop operation t m =
      (Raise e, m\<lparr>zone_operations_script := rest, trace := trace m @ [Call ?q]\<rparr>)"
    using Nil
    by (subst wait_loop.simps)
      (simp add: fetch_operation_named[OF n] zone_operations_client_get_def emit_def)
  moreover have "requests_of [Call ?q] = replicate (Suc (length ([] :: operation_result list))) ?q"
    and "writes_of [Call ?q] = []"
    by simp_all
  ultimately show ?case by blast
next
  case (Cons r pre)
  let ?q = "ZoneOperationsGet (project_id (config m)) (get_zone (config m)) n"
  let ?round = "[Call ?q,
      Print (''[INFO] '' @ t @ '' in progress... ('' @ str_int (progress r) @ ''%)''),
      Log INFO (t @ '' in progress... ('' @ str_int (progress r) @ ''%)''),
      Sleep 2]"
  let ?m2 = "sleep 2 (log_info (t @ '' in progress... ('' @ str_int (progress r) @ ''%)'')
      ((emit [Call ?q] m)\<lparr>zone_operations_script := map Inr pre @ Inl e # rest\<rparr>))"
  have s: "zone_operations_script ?m2 = map Inr pre @ Inl e # rest"
    by (simp add: sleep_def log_info_def emit_def)
  have r: "status r \<noteq> DONE" and pre: "\<forall>r\<in>set pre. status r \<noteq> DONE"
    using Cons.prems(1) by simp_all
  have step: "wait_loop operation t m = wait_loop operation t ?m2"
    apply (subst wait_loop.simps)
    apply (simp add: fetch_operation_named[OF n] zone_operations_client_get_def Cons.prems(2) r
        emit_def)
    done
  have c2: "config ?m2 = config m" and t2: "trace ?m2 = trace m @ ?round"
    by (simp_all add: sleep_def log_info_def emit_def)
  from Cons.IH[OF pre s] obtain es where
    w: "wait_loop operation t ?m2 =
        (Raise e, ?m2\<lparr>zone_operations_script := rest, trace := trace ?m2 @ es\<rparr>)"
    and rq: "requests_of es = replicate (Suc (length pre))
        (ZoneOperationsGet (project_id (config ?m2)) (get_zone (config ?m2)) n)"
    and wr: "writes_of es = []"
    by blast
  have "?m2\<lparr>zone_operations_script := rest, trace := trace ?m2 @ es\<rparr> =
      m\<lparr>zone_operations_script := rest, trace := trace m @ (?round @ es)\<rparr>"
    by (simp add: sleep_def log_info_def emit_def)
  then have "wait_loop operation t m =
      (Raise e, m\<lparr>zone_operations_script := rest, trace := trace m @ (?round @ es)\<rparr>)"
    using step w by simp
  moreover have "requests_of (?round @ es) = replicate (Suc (length (r # pre))) ?q"
    using rq c2 by simp
  moreover have "writes_of (?round @ es) = []"
    using wr by simp
  ultimately show ?case by blast
qed

lemma wait_for_operation_poll_raises:
  assumes n: "op_name operation = Some n"
    and pre: "\<forall>r\<in>set pre. status r \<noteq> DONE"
    and s: "zone_operations_script m = map Inr pre @ Inl e # rest"
  shows "\<exists>es. wait_for_operation operation t m =
        (Raise e, m\<lparr>zone_operations_script := rest, trace := trace m @ es\<rparr>)
      \<and> requests_of es = replicate (Suc (length pre))
            (ZoneOperationsGet (project_id (config m)) (get_zone (config m)) n)
      \<and> writes_of es = []"
proof -
  let ?m1 = "log_info (''Waiting for '' @ t @ '' to complete...'') m"
  let ?intro = "[Print (''[INFO] Waiting for '' @ t @ '' to complete...''),
      Log INFO (''Waiting for '' @ t @ '' to complete...'')]"
  have s1: "zone_operations_script ?m1 = map Inr pre @ Inl e # rest"
    using s by (simp add: log_info_def emit_def)
  from wait_loop_poll_raises[OF n pre s1, of t] obtain es where
    w: "wait_loop operation t ?m1 =
        (Raise e, ?m1\<lparr>zone_operations_script := rest, trace := trace ?m1 @ es\<rparr>)"
    and rq: "requests_of es = replicate (Suc (length pre))
        (ZoneOperationsGet (project_id (config ?m1)) (get_zone (config ?m1)) n)"
    and wr: "writes_of es = []"
    by blast
  have "?m1\<lparr>zone_operations_script := rest, trace := trace ?m1 @ es\<rparr> =
      m\<lparr>zone_operations_script := rest, trace := trace m @ (?intro @ es)\<rparr>"
    by (simp add: log_info_def emit_def)
  then have "wait_for_operation operation t m =
      (Raise e, m\<lparr>zone_operations_script := rest, trace := trace m @ (?intro @ es)\<rparr>)"
    unfolding wait_for_operation_def using w by simp
  moreover have "requests_of (?intro @ es) = replicate (Suc (length pre))
      (ZoneOperationsGet (project_id (config m)) (get_zone (config m)) n)"
    using rq by (simp add: log_info_def emit_def)
  moreover have "writes_of (?intro @ es) = []"
    using wr by simp
  ultimately show ?thesis by blast
qed

text \<open>An instance that is not stopped: the \<open>try\<close> block is entered.\<close>

lemma stop_instance_running:
  assumes st: "inst_status inst \<noteq> ''TERMINATED''" "inst_status inst \<noteq> ''STOPPED''"
    and s1: "instances_get_script m = Inr inst # rs"
  shows "stop_instance m =
     try_except (stop_instance_try (vm_name (config m)) (get_zone (config m)))
       (\<lambda>e m. (Return False, log_error (''Failed to stop instance: '' @ str_exn e) m))
       (log_info (''Stopping instance '' @ vm_name (config m) @ ''...'')
         ((emit [Call (InstancesGet (project_id (config m)) (get_zone (config m))
                        (vm_name (config m)))] m)\<lparr>instances_get_script := rs\<rparr>))"
proof -
  have g: "get_instance_status m = (Return (Some (inst_status inst)),
      (emit [Call (InstancesGet (project_id (config m)) (get_zone (config m))
                     (vm_name (config m)))] m)\<lparr>instances_get_script := rs\<rparr>)"
    by (simp add: get_instance_status_def instances_client_get_def s1 emit_def)
  show ?thesis
    unfolding stop_instance_def Let_def g using st by simp
qed

lemma stop_instance_call_raises:
  assumes st: "inst_status inst \<noteq> ''TERMINATED''" "inst_status inst \<noteq> ''STOPPED''"
    and s1: "instances_get_script m = Inr inst # rs"
    and s2: "instances_mutate_script m = Inl e # os"
  shows "fst (stop_instance m) = Return False
    \<and> requests_of (trace (snd (stop_instance m))) =
        requests_of (trace m)
        @ [InstancesGet (project_id (config m)) (get_zone (config m)) (vm_name (config m)),
           InstancesStop (project_id (config m)) (get_zone (config m)) (vm_name (config m))]"
proof -
  let ?p = "project_id (config m)" and ?z = "get_zone (config m)" and ?name = "vm_name (config m)"
  let ?m2 = "log_info (''Stopping instance '' @ ?name @ ''...'')
      ((emit [Call (InstancesGet ?p ?z ?name)] m)\<lparr>instances_get_script := rs\<rparr>)"
  let ?m3 = "(emit [Call (InstancesStop ?p ?z ?name)] ?m2)\<lparr>instances_mutate_script := os\<rparr>"
  have mu: "instances_client_mutate (InstancesStop (project_id (config ?m2)) ?z ?name) ?m2
      = (Raise e, ?m3)"
    by (simp add: instances_client_mutate_def s2 emit_def log_info_def)
  have t: "stop_instance_try ?name ?z ?m2 = (Raise e, ?m3)"
    unfolding stop_instance_try_def and_then_def
    by (simp only: mu prod.case outcome.case)
  have "stop_instance m = (Return False, log_error (''Failed to stop instance: '' @ str_exn e) ?m3)"
    unfolding stop_instance_running[OF st s1] try_except_def
    by (simp only: t prod.case outcome.case)
  then show ?thesis
    by (simp add: log_info_def emit_def)
qed

lemma stop_instance_operation_fails:
  assumes n: "op_name operation = Some n"
    and pre: "\<forall>r\<in>set pre. status r \<noteq> DONE"
    and d: "status d = DONE" "error d = Some err"
    and st: "inst_status inst \<noteq> ''TERMINATED''" "inst_status inst \<noteq> ''STOPPED''"
    and s1: "instances_get_script m = Inr inst # rs"
    and s2: "instances_mutate_script m = Inr operation # os"
    and s3: "zone_operations_script m = map Inr pre @ Inr d # rest"
  shows "fst (stop_instance m) = Return False
    \<and> requests_of (trace (snd (stop_instance m))) =
        requests_of (trace m)
        @ [InstancesGet (project_id (config m)) (get_zone (config m)) (vm_name (config m)),
           InstancesStop (project_id (config m)) (get_zone (config m)) (vm_name (config m))]
        @ replicate (Suc (length pre))
            (ZoneOperationsGet (project_id (config m)) (get_zone (config m)) n)"
proof -
  let ?p = "project_id (config m)" and ?z = "get_zone (config m)" and ?name = "vm_name (config m)"
  let ?m2 = "log_info (''Stopping instance '' @ ?name @ ''...'')
      ((emit [Call (InstancesGet ?p ?z ?name)] m)\<lparr>instances_get_script := rs\<rparr>)"
  let ?m3 = "(emit [Call (InstancesStop ?p ?z ?name)] ?m2)\<lparr>instances_mutate_script := os\<rparr>"
  have mu: "instances_client_mutate (InstancesStop (project_id (config ?m2)) ?z ?name) ?m2
      = (Return operation, ?m3)"
    by (simp add: instances_client_mutate_def s2 emit_def log_info_def)
  have z3: "zone_operations_script ?m3 = map Inr pre @ Inr d # rest"
    by (simp add: s3 emit_def log_info_def)
  from wait_for_operation_done[OF n pre d(1) z3, of "''instance stop''"] obtain es where
    w: "wait_for_operation operation ''instance stop'' ?m3 =
        (Return (error d = None), ?m3\<lparr>zone_operations_script := rest, trace := trace ?m3 @ es\<rparr>)"
    and rq: "requests_of es = replicate (Suc (length pre))
            (ZoneOperationsGet (project_id (config ?m3)) (get_zone (config ?m3)) n)"
    by blast
  have c3: "config ?m3 = config m"
    by (simp add: emit_def log_info_def)
  have t: "stop_instance_try ?name ?z ?m2 =
      (Return False, ?m3\<lparr>zone_operations_script := rest, trace := trace ?m3 @ es\<rparr>)"
    unfolding stop_instance_try_def and_then_def
    apply (simp only: mu w d(2) prod.case outcome.case)
    apply simp
    done
  have "stop_instance m =
      (Return False, ?m3\<lparr>zone_operations_script := rest, trace := trace ?m3 @ es\<rparr>)"
    unfolding stop_instance_running[OF st s1] try_except_def
    by (simp only: t prod.case outcome.case)
  then show ?thesis
    using rq c3 by (simp add: log_info_def emit_def)
qed

lemma stop_instance_poll_raises:
  assumes n: "op_name operation = Some n"
    and pre: "\<forall>r\<in>set pre. status r \<noteq> DONE"
    and st: "inst_status inst \<noteq> ''TERMINATED''" "inst_status inst \<noteq> ''STOPPED''"
    and s1: "instances_get_script m = Inr inst # rs"
    and s2: "instances_mutate_script m = Inr operation # os"
    and s3: "zone_operations_script m = map Inr pre @ Inl e # rest"
  shows "fst (stop_instance m) = Return False
    \<and> requests_of (trace (snd (stop_instance m))) =
        requests_of (trace m)
        @ [InstancesGet (project_id (config m)) (get_zone (config m)) (vm_name (config m)),
           InstancesStop (project_id (config m)) (get_zone (config m)) (vm_name (config m))]
        @ replicate (Suc (length pre))
            (ZoneOperationsGet (project_id (config m)) (get_zone (config m)) n)"
proof -
  let ?p = "project_id (config m)" and ?z = "get_zone (config m)" and ?name = "vm_name (config m)"
  let ?m2 = "log_info (''Stopping instance '' @ ?name @ ''...'')
      ((emit [Call (InstancesGet ?p ?z ?name)] m)\<lparr>instances_get_script := rs\<rparr>)"
  let ?m3 = "(emit [Call (InstancesStop ?p ?z ?name)] ?m2)\<lparr>instances_mutate_script := os\<rparr>"
  have mu: "instances_client_mutate (InstancesStop (project_id (config ?m2)) ?z ?name) ?m2
      = (Return operation, ?m3)"
    by (simp add: instances_client_mutate_def s2 emit_def log_info_def)
  have z3: "zone_operations_script ?m3 = map Inr pre @ Inl e # rest"
    by (simp add: s3 emit_def log_info_def)
  from wait_for_operation_poll_raises[OF n pre z3, of "''instance stop''"] obtain es where
    w: "wait_for_operation operation ''instance stop'' ?m3 =
        (Raise e, ?m3\<lparr>zone_operations_script := rest, trace := trace ?m3 @ es\<rparr>)"
    and rq: "requests_of es = replicate (Suc (length pre))
            (ZoneOperationsGet (project_id (config ?m3)) (get_zone (config ?m3)) n)"
    by blast
  have c3: "config ?m3 = config m"
    by (simp add: emit_def log_info_def)
  have t: "stop_instance_try ?name ?z ?m2 =
      (Raise e, ?m3\<lparr>zone_operations_script := rest, trace := trace ?m3 @ es\<rparr>)"
    unfolding stop_instance_try_def and_then_def
    by (simp only: mu w prod.case outcome.case)
  have "stop_instance m =
      (Return False, log_error (''Failed to stop instance: '' @ str_exn e)
         (?m3\<lparr>zone_operations_script := rest, trace := trace ?m3 @ es\<rparr>))"
    unfolding stop_instance_running[OF st s1] try_except_def
    by (simp only: t prod.case outcome.case)
  then show ?thesis
    using rq c3 by (simp add: log_info_def emit_def)
qed

lemma untouched_scripts [simp]:
  "untouched m (m\<lparr>instances_get_script := a\<rparr>)"
  "untouched m (m\<lparr>instances_get_script := a, instances_mutate_script := b\<rparr>)"
  "untouched m (m\<lparr>instances_get_script := a, instances_mutate_script := b,
                  zone_operations_script := c\<rparr>)"
  by (simp_all add: untouched_def)

lemma stop_instance_failure_untouched:
  assumes "untouched m m'" and "fst (stop_instance m') = Return False"
  shows "untouched m (snd (stop_instance m'))"
proof -
  have "untouched m' (snd (stop_instance m'))"
    using stop_instance_guarded[of m'] assms(2) by (simp add: guarded_def)
  with assms(1) show ?thesis
    by (rule untouched_trans)
qed

text \<open>
  The claim C5 as it is stated fails: the instance is running, the stop request is sent
  and its operation is polled to \<open>DONE\<close>, but the operation carries an error, so
  \<open>stop_instance\<close> returns \<open>False\<close>, \<open>instance_state\<close> stays \<open>RUNNING\<close> and nothing is
  written.
\<close>

theorem stop_instance_operation_error_counterexample:
  "fst (stop_instance failing_stop_manager) = Return False
   \<and> requests_of (trace (snd (stop_instance failing_stop_manager))) =
       [InstancesGet ''your-gcp-project-id'' ''us-central1-a'' ''demo'',
        InstancesStop ''your-gcp-project-id'' ''us-central1-a'' ''demo'',
        ZoneOperationsGet ''your-gcp-project-id'' ''us-central1-a'' ''operation-1'']
   \<and> instance_state (config (snd (stop_instance failing_stop_manager))) = ''RUNNING''
   \<and> writes_of (trace (snd (stop_instance failing_stop_manager))) = []
   \<and> disk (snd (stop_instance failing_stop_manager)) = None"
proof -
  have n: "op_name zone_op = Some ''operation-1''"
    by (simp add: zone_op_def)
  have pre: "\<forall>r\<in>set ([] :: operation_result list). status r \<noteq> DONE"
    by simp
  have d: "status obs_failed = DONE" "error obs_failed = Some ''QUOTA_EXCEEDED''"
    by (simp_all add: obs_failed_def)
  have st: "inst_status running_instance \<noteq> ''TERMINATED''"
    "inst_status running_instance \<noteq> ''STOPPED''"
    by (simp_all add: running_instance_def)
  have s: "instances_get_script failing_stop_manager = Inr running_instance # []"
    "instances_mutate_script failing_stop_manager = Inr zone_op # []"
    "zone_operations_script failing_stop_manager = map Inr [] @ Inr obs_failed # []"
    by (simp_all add: failing_stop_manager_def)
  have i: "project_id (config failing_stop_manager) = ''your-gcp-project-id''"
    "get_zone (config failing_stop_manager) = ''us-central1-a''"
    "vm_name (config failing_stop_manager) = ''demo''"
    "instance_state (config failing_stop_manager) = ''RUNNING''"
    "trace failing_stop_manager = []" "disk failing_stop_manager = None"
    by (simp_all add: failing_stop_manager_def idle_manager_def demo_config_def
        default_config_record_def get_zone_def)
  note f = stop_instance_operation_fails[OF n pre d st s, unfolded i, simplified]
  have "untouched failing_stop_manager (snd (stop_instance failing_stop_manager))"
    using f by (intro stop_instance_failure_untouched) simp_all
  then have "instance_state (config (snd (stop_instance failing_stop_manager))) = ''RUNNING''"
    and "writes_of (trace (snd (stop_instance failing_stop_manager))) = []"
    and "disk (snd (stop_instance failing_stop_manager)) = None"
    by (simp_all add: untouched_def i)
  with f show ?thesis
    by simp
qed

text \<open>
  C5, amended. The cases of \<open>stop_instance\<close>, by the answer to the status query. An
  instance that is \<open>TERMINATED\<close> or \<open>STOPPED\<close>: \<open>True\<close>, and the query is the only request
  sent. A query that raises: \<open>False\<close>, again with no stop request. Any other status: the
  stop request is sent after the query. If it is accepted and its operation ends \<open>DONE\<close>
  after the observations \<open>pre\<close>, the operation is polled to that end and the result is
  \<open>True\<close> exactly when it carries no error; then \<open>instance_state\<close> is \<open>TERMINATED\<close> in the
  configuration and the configuration is written to the file (unless writing the file
  raises), and with an error nothing of the configuration has changed. If the stop call
  raises, or a poll raises, the result is \<open>False\<close> and nothing of the configuration has
  changed. From every state, a result \<open>False\<close> leaves the configuration as it was.
\<close>

theorem stop_instance_cases:
  assumes "inst_status stopped = ''TERMINATED'' \<or> inst_status stopped = ''STOPPED''"
    and "inst_status inst \<noteq> ''TERMINATED''" and "inst_status inst \<noteq> ''STOPPED''"
    and "op_name operation = Some n"
    and "\<forall>r\<in>set pre. status r \<noteq> DONE"
    and "status d = DONE"
  shows
    "(let r = stop_instance (m\<lparr>instances_get_script := Inr stopped # rs\<rparr>) in
        fst r = Return True
        \<and> requests_of (trace (snd r)) = requests_of (trace m)
            @ [InstancesGet (project_id (config m)) (get_zone (config m)) (vm_name (config m))]
        \<and> untouched m (snd r))
     \<and> (let r = stop_instance (m\<lparr>instances_get_script := Inl e # rs\<rparr>) in
        fst r = Return False
        \<and> requests_of (trace (snd r)) = requests_of (trace m)
            @ [InstancesGet (project_id (config m)) (get_zone (config m)) (vm_name (config m))]
        \<and> untouched m (snd r))
     \<and> (let r = stop_instance (m\<lparr>instances_get_script := Inr inst # rs,
                                  instances_mutate_script := Inr operation # os,
                                  zone_operations_script := map Inr pre @ Inr d # rest\<rparr>) in
        fst r = Return (error d = None)
        \<and> requests_of (trace (snd r)) = requests_of (trace m)
            @ [InstancesGet (project_id (config m)) (get_zone (config m)) (vm_name (config m)),
               InstancesStop (project_id (config m)) (get_zone (config m)) (vm_name (config m))]
            @ replicate (Suc (length pre))
                (ZoneOperationsGet (project_id (config m)) (get_zone (config m)) n)
        \<and> (if error d = None then
              config (snd r) = (config m)\<lparr>instance_state := ''TERMINATED''\<rparr>
              \<and> disk (snd r) =
                  (if write_error m = None
                   then Some ((config m)\<lparr>instance_state := ''TERMINATED''\<rparr>) else disk m)
              \<and> writes_of (trace (snd r)) = writes_of (trace m)
                  @ (if write_error m = None
                     then [(config m)\<lparr>instance_state := ''TERMINATED''\<rparr>] else [])
            else untouched m (snd r)))
     \<and> (let r = stop_instance (m\<lparr>instances_get_script := Inr inst # rs,
                                  instances_mutate_script := Inl e # os\<rparr>) in
        fst r = Return False
        \<and> requests_of (trace (snd r)) = requests_of (trace m)
            @ [InstancesGet (project_id (config m)) (get_zone (config m)) (vm_name (config m)),
               InstancesStop (project_id (config m)) (get_zone (config m)) (vm_name (config m))]
        \<and> untouched m (snd r))
     \<and> (let r = stop_instance (m\<lparr>instances_get_script := Inr inst # rs,
                                  instances_mutate_script := Inr operation # os,
                                  zone_operations_script := map Inr pre @ Inl e # rest\<rparr>) in
        fst r = Return False
        \<and> requests_of (trace (snd r)) = requests_of (trace m)
            @ [InstancesGet (project_id (config m)) (get_zone (config m)) (vm_name (config m)),
               InstancesStop (project_id (config m)) (get_zone (config m)) (vm_name (config m))]
            @ replicate (Suc (length pre))
                (ZoneOperationsGet (project_id (config m)) (get_zone (config m)) n)
        \<and> untouched m (snd r))
     \<and> (fst (stop_instance m) = Return False \<longrightarrow> untouched m (snd (stop_instance m)))"
proof -
  let ?m3 = "m\<lparr>instances_get_script := Inr inst # rs,
              instances_mutate_script := Inr operation # os,
              zone_operations_script := map Inr pre @ Inr d # rest\<rparr>"
  have a3: "instances_get_script ?m3 = Inr inst # rs"
    "instances_mutate_script ?m3 = Inr operation # os"
    "zone_operations_script ?m3 = map Inr pre @ Inr d # rest"
    by simp_all
  let ?m4 = "m\<lparr>instances_get_script := Inr inst # rs, instances_mutate_script := Inl e # os\<rparr>"
  have a4: "instances_get_script ?m4 = Inr inst # rs" "instances_mutate_script ?m4 = Inl e # os"
    by simp_all
  let ?m5 = "m\<lparr>instances_get_script := Inr inst # rs,
              instances_mutate_script := Inr operation # os,
              zone_operations_script := map Inr pre @ Inl e # rest\<rparr>"
  have a5: "instances_get_script ?m5 = Inr inst # rs"
    "instances_mutate_script ?m5 = Inr operation # os"
    "zone_operations_script ?m5 = map Inr pre @ Inl e # rest"
    by simp_all
  have c1: "let r = stop_instance (m\<lparr>instances_get_script := Inr stopped # rs\<rparr>) in
        fst r = Return True
        \<and> requests_of (trace (snd r)) = requests_of (trace m)
            @ [InstancesGet (project_id (config m)) (get_zone (config m)) (vm_name (config m))]
        \<and> untouched m (snd r)"
    unfolding Let_def stop_instance_already_stopped[OF assms(1)]
    by (simp add: untouched_def)
  have c2: "let r = stop_instance (m\<lparr>instances_get_script := Inl e # rs\<rparr>) in
        fst r = Return False
        \<and> requests_of (trace (snd r)) = requests_of (trace m)
            @ [InstancesGet (project_id (config m)) (get_zone (config m)) (vm_name (config m))]
        \<and> untouched m (snd r)"
    unfolding Let_def stop_instance_not_found
    by (simp add: untouched_def)
  have c3: "let r = stop_instance ?m3 in
        fst r = Return (error d = None)
        \<and> requests_of (trace (snd r)) = requests_of (trace m)
            @ [InstancesGet (project_id (config m)) (get_zone (config m)) (vm_name (config m)),
               InstancesStop (project_id (config m)) (get_zone (config m)) (vm_name (config m))]
            @ replicate (Suc (length pre))
                (ZoneOperationsGet (project_id (config m)) (get_zone (config m)) n)
        \<and> (if error d = None then
              config (snd r) = (config m)\<lparr>instance_state := ''TERMINATED''\<rparr>
              \<and> disk (snd r) =
                  (if write_error m = None
                   then Some ((config m)\<lparr>instance_state := ''TERMINATED''\<rparr>) else disk m)
              \<and> writes_of (trace (snd r)) = writes_of (trace m)
                  @ (if write_error m = None
                     then [(config m)\<lparr>instance_state := ''TERMINATED''\<rparr>] else [])
            else untouched m (snd r))"
  proof (cases "error d")
    case None
    from stop_instance_stops[OF assms(4) assms(5) assms(6) None assms(2) assms(3) a3]
    show ?thesis
      unfolding Let_def using None by simp
  next
    case (Some err)
    note f = stop_instance_operation_fails[OF assms(4) assms(5) assms(6) Some assms(2) assms(3) a3]
    have "untouched m (snd (stop_instance ?m3))"
      using f by (intro stop_instance_failure_untouched) simp_all
    with f show ?thesis
      unfolding Let_def using Some by simp
  qed
  have c4: "let r = stop_instance ?m4 in
        fst r = Return False
        \<and> requests_of (trace (snd r)) = requests_of (trace m)
            @ [InstancesGet (project_id (config m)) (get_zone (config m)) (vm_name (config m)),
               InstancesStop (project_id (config m)) (get_zone (config m)) (vm_name (config m))]
        \<and> untouched m (snd r)"
  proof -
    note f = stop_instance_call_raises[OF assms(2) assms(3) a4]
    have "untouched m (snd (stop_instance ?m4))"
      using f by (intro stop_instance_failure_untouched) simp_all
    with f show ?thesis
      unfolding Let_def by simp
  qed
  have c5: "let r = stop_instance ?m5 in
        fst r = Return False
        \<and> requests_of (trace (snd r)) = requests_of (trace m)
            @ [InstancesGet (project_id (config m)) (get_zone (config m)) (vm_name (config m)),
               InstancesStop (project_id (config m)) (get_zone (config m)) (vm_name (config m))]
            @ replicate (Suc (length pre))
                (ZoneOperationsGet (project_id (config m)) (get_zone (config m)) n)
        \<and> untouched m (snd r)"
  proof -
    note f = stop_instance_poll_raises[OF assms(4) assms(5) assms(2) assms(3) a5]
    have "untouched m (snd (stop_instance ?m5))"
      using f by (intro stop_instance_failure_untouched) simp_all
    with f show ?thesis
      unfolding Let_def by simp
  qed
  have c6: "fst (stop_instance m) = Return False \<longrightarrow> untouched m (snd (stop_instance m))"
    using stop_instance_failure_untouched[of m m] by simp
  from c1 c2 c3 c4 c5 c6 show ?thesis
    by (intro conjI)
qed

theorem stop_instance_cases_witness:
  "fst (stop_instance (idle_manager\<lparr>instances_get_script := [Inr stopped_instance]\<rparr>)) = Return True
   \<and> requests_of (trace (snd (stop_instance
          (idle_manager\<lparr>instances_get_script := [Inr stopped_instance]\<rparr>)))) =
       [InstancesGet ''your-gcp-project-id'' ''us-central1-a'' ''demo'']
   \<and> fst (stop_instance (idle_manager\<lparr>instances_get_script := [Inl (ApiError ''404'')]\<rparr>))
       = Return False
   \<and> fst (stop_instance (idle_manager\<lparr>instances_get_script := [Inr running_instance],
            instances_mutate_script := [Inr zone_op],
            zone_operations_script := [Inr obs_pending, Inr obs_running, Inr obs_done]\<rparr>))
       = Return True
   \<and> requests_of (trace (snd (stop_instance (idle_manager\<lparr>instances_get_script := [Inr running_instance],
            instances_mutate_script := [Inr zone_op],
            zone_operations_script := [Inr obs_pending, Inr obs_running, Inr obs_done]\<rparr>)))) =
       [InstancesGet ''your-gcp-project-id'' ''us-central1-a'' ''demo'',
        InstancesStop ''your-gcp-project-id'' ''us-central1-a'' ''demo'',
        ZoneOperationsGet ''your-gcp-project-id'' ''us-central1-a'' ''operation-1'',
        ZoneOperationsGet ''your-gcp-project-id'' ''us-central1-a'' ''operation-1'',
        ZoneOperationsGet ''your-gcp-project-id'' ''us-central1-a'' ''operation-1'']
   \<and> instance_state (config (snd (stop_instance (idle_manager\<lparr>instances_get_script := [Inr running_instance],
            instances_mutate_script := [Inr zone_op],
            zone_operations_script := [Inr obs_pending, Inr obs_running, Inr obs_done]\<rparr>))))
       = ''TERMINATED''
   \<and> map instance_state (writes_of (trace (snd (stop_instance (idle_manager\<lparr>instances_get_script := [Inr running_instance],
            instances_mutate_script := [Inr zone_op],
            zone_operations_script := [Inr obs_pending, Inr obs_running, Inr obs_done]\<rparr>)))))
       = [''TERMINATED'']
   \<and> fst (stop_instance (idle_manager\<lparr>instances_get_script := [Inr running_instance],
            instances_mutate_script := [Inl (ApiError ''404'')]\<rparr>))
       = Return False
   \<and> fst (stop_instance (idle_manager\<lparr>instances_get_script := [Inr running_instance],
            instances_mutate_script := [Inr zone_op],
            zone_operations_script := [Inr obs_pending, Inr obs_running, Inl (ApiError ''404'')]\<rparr>))
       = Return False
   \<and> fst (stop_instance failing_stop_manager) = Return False
   \<and> untouched failing_stop_manager (snd (stop_instance failing_stop_manager))"
proof -
  have h1: "inst_status stopped_instance = ''TERMINATED'' \<or> inst_status stopped_instance = ''STOPPED''"
    by (simp add: stopped_instance_def)
  have h2: "inst_status running_instance \<noteq> ''TERMINATED''"
    and h3: "inst_status running_instance \<noteq> ''STOPPED''"
    by (simp_all add: running_instance_def)
  have h4: "op_name zone_op = Some ''operation-1''"
    by (simp add: zone_op_def)
  have h5: "\<forall>r\<in>set [obs_pending, obs_running]. status r \<noteq> DONE"
    by (simp add: obs_pending_def obs_running_def)
  have h5': "\<forall>r\<in>set ([] :: operation_result list). status r \<noteq> DONE"
    by simp
  have h6: "status obs_done = DONE" and h7: "error obs_done = None"
    by (simp_all add: obs_done_def)
  have h6': "status obs_failed = DONE" and h7': "error obs_failed = Some ''QUOTA_EXCEEDED''"
    by (simp_all add: obs_failed_def)
  have i: "project_id (config idle_manager) = ''your-gcp-project-id''"
    "get_zone (config idle_manager) = ''us-central1-a''"
    "vm_name (config idle_manager) = ''demo''"
    "trace idle_manager = []" "write_error idle_manager = None"
    by (simp_all add: idle_manager_def demo_config_def default_config_record_def get_zone_def)
  note w1 = stop_instance_cases[OF h1 h2 h3 h4 h5 h6, where m = idle_manager and rs = "[]"
      and e = "ApiError ''404''" and os = "[]" and rest = "[]", unfolded Let_def i h7, simplified]
  note w2 = stop_instance_cases[OF h1 h2 h3 h4 h5' h6', where m = idle_manager and rs = "[]"
      and e = "ApiError ''404''" and os = "[]" and rest = "[]", unfolded Let_def i h7', simplified]
  have f: "fst (stop_instance failing_stop_manager) = Return False"
    using w2 by (simp add: failing_stop_manager_def)
  note w3 = stop_instance_cases[OF h1 h2 h3 h4 h5' h6', where m = failing_stop_manager
      and rs = "[]" and e = "ApiError ''404''" and os = "[]" and rest = "[]"]
  from w3 f have u: "untouched failing_stop_manager (snd (stop_instance failing_stop_manager))"
    by blast
  from w1 f u show ?thesis
    by (simp add: numeral_3_eq_3)
qed

section \<open>Persistence of the configuration\<close>

text \<open>
  C10. For \<open>start_instance\<close> and \<open>stop_instance\<close>, from every state and for every
  behaviour of the provider: no exception leaves them; when they return \<open>False\<close> the
  configuration in memory and the file are as before and nothing was written; every
  write to the file comes after the report that the awaited operation completed
  successfully (and there is none without that report); and the dictionary in memory
  differs from the one before only if that report was made.
\<close>

theorem start_stop_persist_only_after_success:
  "(\<forall>e. fst (start_instance m) \<noteq> Raise e)
   \<and> (\<forall>e. fst (stop_instance m) \<noteq> Raise e)
   \<and> (fst (start_instance m) = Return False \<longrightarrow> untouched m (snd (start_instance m)))
   \<and> (fst (stop_instance m) = Return False \<longrightarrow> untouched m (snd (stop_instance m)))
   \<and> written_only_after (Log SUCCESS ''instance start completed successfully'')
        (new_events m (snd (start_instance m)))
   \<and> written_only_after (Log SUCCESS ''instance stop completed successfully'')
        (new_events m (snd (stop_instance m)))
   \<and> (config (snd (start_instance m)) \<noteq> config m \<longrightarrow>
        Log SUCCESS ''instance start completed successfully''
          \<in> set (new_events m (snd (start_instance m))))
   \<and> (config (snd (stop_instance m)) \<noteq> config m \<longrightarrow>
        Log SUCCESS ''instance stop completed successfully''
          \<in> set (new_events m (snd (stop_instance m))))"
  using start_instance_guarded[of m] stop_instance_guarded[of m]
  by (simp add: guarded_def)

theorem start_stop_persist_only_after_success_witness:
  "fst (start_instance missing_manager) = Return False
   \<and> untouched missing_manager (snd (start_instance missing_manager))
   \<and> fst (stop_instance failing_stop_manager) = Return False
   \<and> untouched failing_stop_manager (snd (stop_instance failing_stop_manager))
   \<and> config (snd (start_instance starting_manager)) \<noteq> config starting_manager
   \<and> Log SUCCESS ''instance start completed successfully''
        \<in> set (new_events starting_manager (snd (start_instance starting_manager)))
   \<and> config (snd (stop_instance stopping_manager)) \<noteq> config stopping_manager
   \<and> Log SUCCESS ''instance stop completed successfully''
        \<in> set (new_events stopping_manager (snd (stop_instance stopping_manager)))"
proof -
  have a: "fst (start_instance missing_manager) = Return False"
    by code_simp
  have b: "fst (stop_instance failing_stop_manager) = Return False"
    by code_simp
  have c: "config (snd (start_instance starting_manager)) \<noteq> config starting_manager"
    by code_simp
  have d: "config (snd (stop_instance stopping_manager)) \<noteq> config stopping_manager"
    by code_simp
  from a b c d
    start_stop_persist_only_after_success[of missing_manager]
    start_stop_persist_only_after_success[of failing_stop_manager]
    start_stop_persist_only_after_success[of starting_manager]
    start_stop_persist_only_after_success[of stopping_manager]
  show ?thesis
    by blast
qed

section \<open>No exception leaves a lifecycle operation\<close>















end
